theory Spec2Isabelle
  imports Main
begin

section \<open>JavaScript values and \<open>JSON.parse\<close>\<close>

text \<open>
  The handler of \<open>src/withAuthUserTokenSSR.js\<close> reads a cookie, hands it to
  \<open>JSON.parse\<close>, destructures the result and tests the \<open>idToken\<close> property for
  truthiness. These are operations of the language, not of the repository; they are
  modelled here so that the handler can be run on concrete cookie payloads.

  A JavaScript string is a sequence of UTF-16 code units. A four-digit hexadecimal escape of a JSON
  string denotes any code unit, so code units are natural numbers (each below 65536)
  rather than 8-bit characters. \<open>js\<close> embeds an ASCII literal.
\<close>

type_synonym jsstring = "nat list"

definition js :: "string \<Rightarrow> jsstring" where
  "js s = map of_char s"

text \<open>
  The values \<open>JSON.parse\<close> can return, and \<open>undefined\<close>. A number keeps its sign, the
  digits of its integer and fraction parts read as one natural number, and the decimal
  exponent that places the point: \<open>JNum neg m e\<close> denotes \<open>(-1)^neg * m * 10^e\<close>. An object
  keeps its members in source order, duplicates included.
\<close>

datatype jsval =
    JUndefined
  | JNull
  | JBool bool
  | JNum bool nat int
  | JStr jsstring
  | JArr "jsval list"
  | JObj "(jsstring \<times> jsval) list"

text \<open>The exceptions that can leave the handler.\<close>

datatype error =
    SyntaxError
  | TypeError
  | Error string
  | AuthVerificationError
  | Thrown string

subsection \<open>Lexical level\<close>

text \<open>JSON white space: tab, line feed, carriage return, space.\<close>

definition is_ws :: "nat \<Rightarrow> bool" where
  "is_ws c = (c = 0x09 \<or> c = 0x0A \<or> c = 0x0D \<or> c = 0x20)"

definition skip_ws :: "jsstring \<Rightarrow> jsstring" where
  "skip_ws s = dropWhile is_ws s"

definition is_digit :: "nat \<Rightarrow> bool" where
  "is_digit c = (0x30 \<le> c \<and> c \<le> 0x39)"

definition hexval :: "nat \<Rightarrow> nat option" where
  "hexval c =
     (if 0x30 \<le> c \<and> c \<le> 0x39 then Some (c - 0x30)
      else if 0x41 \<le> c \<and> c \<le> 0x46 then Some (c - 0x41 + 10)
      else if 0x61 \<le> c \<and> c \<le> 0x66 then Some (c - 0x61 + 10)
      else None)"

text \<open>
  The single-character escapes: quotation mark, reverse solidus, solidus, and the
  letters b, f, n, r, t.
\<close>

definition unescape :: "nat \<Rightarrow> nat option" where
  "unescape e =
     (if e = 0x22 then Some 0x22
      else if e = 0x5C then Some 0x5C
      else if e = 0x2F then Some 0x2F
      else if e = 0x62 then Some 0x08
      else if e = 0x66 then Some 0x0C
      else if e = 0x6E then Some 0x0A
      else if e = 0x72 then Some 0x0D
      else if e = 0x74 then Some 0x09
      else None)"

definition push :: "nat \<Rightarrow> (jsstring \<times> jsstring) option \<Rightarrow> (jsstring \<times> jsstring) option" where
  "push c r = (case r of None \<Rightarrow> None | Some (str, rest) \<Rightarrow> Some (c # str, rest))"

text \<open>
  The characters of a string after its opening quotation mark, up to the closing one:
  the decoded string and the input that follows it. Control characters below U+0020
  must be escaped.
\<close>

fun parse_string :: "jsstring \<Rightarrow> (jsstring \<times> jsstring) option" where
  "parse_string [] = None"
| "parse_string (c # cs) =
     (if c = 0x22 then Some ([], cs)
      else if c = 0x5C then
        (case cs of
           [] \<Rightarrow> None
         | e # r \<Rightarrow>
             if e = 0x75 then
               (case r of
                  h1 # h2 # h3 # h4 # r' \<Rightarrow>
                    (case (hexval h1, hexval h2, hexval h3, hexval h4) of
                       (Some a, Some b, Some c', Some d) \<Rightarrow>
                         push (a * 4096 + b * 256 + c' * 16 + d) (parse_string r')
                     | _ \<Rightarrow> None)
                | _ \<Rightarrow> None)
             else
               (case unescape e of
                  None \<Rightarrow> None
                | Some u \<Rightarrow> push u (parse_string r)))
      else if c < 0x20 then None
      else push c (parse_string cs))"

text \<open>
  Numbers: an optional minus sign, an integer part (a single 0, or a non-zero digit
  followed by digits), an optional fraction (a point and at least one digit) and an
  optional exponent (e or E, an optional sign, at least one digit).
\<close>

definition digits_val :: "jsstring \<Rightarrow> nat" where
  "digits_val ds = foldl (\<lambda>a c. 10 * a + (c - 0x30)) 0 ds"

definition parse_int_part :: "jsstring \<Rightarrow> (jsstring \<times> jsstring) option" where
  "parse_int_part s =
     (case s of
        [] \<Rightarrow> None
      | c # r \<Rightarrow>
          if c = 0x30 then Some ([c], r)
          else if 0x31 \<le> c \<and> c \<le> 0x39 then Some (c # takeWhile is_digit r, dropWhile is_digit r)
          else None)"

definition parse_frac_part :: "jsstring \<Rightarrow> (jsstring \<times> jsstring) option" where
  "parse_frac_part s =
     (case s of
        [] \<Rightarrow> Some ([], s)
      | c # r \<Rightarrow>
          if c = 0x2E then
            (if takeWhile is_digit r = [] then None
             else Some (takeWhile is_digit r, dropWhile is_digit r))
          else Some ([], s))"

definition parse_exp_digits :: "bool \<Rightarrow> jsstring \<Rightarrow> (int \<times> jsstring) option" where
  "parse_exp_digits neg s =
     (if takeWhile is_digit s = [] then None
      else Some ((if neg then - int (digits_val (takeWhile is_digit s))
                  else int (digits_val (takeWhile is_digit s))),
                 dropWhile is_digit s))"

definition parse_exp_part :: "jsstring \<Rightarrow> (int \<times> jsstring) option" where
  "parse_exp_part s =
     (case s of
        [] \<Rightarrow> Some (0, s)
      | c # r \<Rightarrow>
          if c = 0x65 \<or> c = 0x45 then
            (case r of
               [] \<Rightarrow> None
             | g # r' \<Rightarrow>
                 if g = 0x2B then parse_exp_digits False r'
                 else if g = 0x2D then parse_exp_digits True r'
                 else parse_exp_digits False r)
          else Some (0, s))"

definition parse_unsigned :: "bool \<Rightarrow> jsstring \<Rightarrow> (jsval \<times> jsstring) option" where
  "parse_unsigned neg s =
     (case parse_int_part s of
        None \<Rightarrow> None
      | Some (ds, s1) \<Rightarrow>
          (case parse_frac_part s1 of
             None \<Rightarrow> None
           | Some (fs, s2) \<Rightarrow>
               (case parse_exp_part s2 of
                  None \<Rightarrow> None
                | Some (e, s3) \<Rightarrow>
                    Some (JNum neg (digits_val (ds @ fs)) (e - int (length fs)), s3))))"

definition parse_number :: "jsstring \<Rightarrow> (jsval \<times> jsstring) option" where
  "parse_number s =
     (case s of
        [] \<Rightarrow> None
      | c # r \<Rightarrow> if c = 0x2D then parse_unsigned True r else parse_unsigned False s)"

fun strip_prefix :: "jsstring \<Rightarrow> jsstring \<Rightarrow> jsstring option" where
  "strip_prefix [] s = Some s"
| "strip_prefix (p # ps) [] = None"
| "strip_prefix (p # ps) (c # cs) = (if p = c then strip_prefix ps cs else None)"

subsection \<open>Values\<close>

text \<open>
  The outcome of parsing a value at the head of the input: the value and the input
  after it, a grammar violation, or exhausted recursion fuel.
\<close>

datatype 'a parsed = Parsed 'a jsstring | Malformed | OutOfFuel

text \<open>A string, one of the literals true, false and null, or a number.\<close>

definition parse_scalar :: "jsstring \<Rightarrow> jsval parsed" where
  "parse_scalar s =
     (case s of
        [] \<Rightarrow> Malformed
      | c # r \<Rightarrow>
          if c = 0x22 then
            (case parse_string r of None \<Rightarrow> Malformed | Some (str, r') \<Rightarrow> Parsed (JStr str) r')
          else if c = 0x74 then
            (case strip_prefix (js ''true'') s of None \<Rightarrow> Malformed | Some r' \<Rightarrow> Parsed (JBool True) r')
          else if c = 0x66 then
            (case strip_prefix (js ''false'') s of None \<Rightarrow> Malformed | Some r' \<Rightarrow> Parsed (JBool False) r')
          else if c = 0x6E then
            (case strip_prefix (js ''null'') s of None \<Rightarrow> Malformed | Some r' \<Rightarrow> Parsed JNull r')
          else
            (case parse_number s of None \<Rightarrow> Malformed | Some (v, r') \<Rightarrow> Parsed v r'))"

text \<open>
  Recursive descent over arrays (\<open>[\<close> is 0x5B, \<open>]\<close> is 0x5D, the comma 0x2C) and objects
  (\<open>{\<close> is 0x7B, \<open>}\<close> is 0x7D, the colon 0x3A). The first argument is fuel, spent at every
  call; \<open>parse_fuel\<close> below shows that the fuel \<open>JSON_parse\<close> supplies is never exhausted.
  \<open>parse_elements\<close> and \<open>parse_members\<close> start at an element (a member) and run to the
  closing bracket, so a trailing comma is a grammar violation.
\<close>

fun parse_value :: "nat \<Rightarrow> jsstring \<Rightarrow> jsval parsed"
  and parse_elements :: "nat \<Rightarrow> jsval list \<Rightarrow> jsstring \<Rightarrow> jsval parsed"
  and parse_members :: "nat \<Rightarrow> (jsstring \<times> jsval) list \<Rightarrow> jsstring \<Rightarrow> jsval parsed"
where
  "parse_value 0 s = OutOfFuel"
| "parse_value (Suc n) s =
     (case skip_ws s of
        [] \<Rightarrow> Malformed
      | c # r \<Rightarrow>
          if c = 0x5B then
            (case skip_ws r of
               [] \<Rightarrow> Malformed
             | d # r' \<Rightarrow> if d = 0x5D then Parsed (JArr []) r' else parse_elements n [] (d # r'))
          else if c = 0x7B then
            (case skip_ws r of
               [] \<Rightarrow> Malformed
             | d # r' \<Rightarrow> if d = 0x7D then Parsed (JObj []) r' else parse_members n [] (d # r'))
          else parse_scalar (c # r))"
| "parse_elements 0 acc s = OutOfFuel"
| "parse_elements (Suc n) acc s =
     (case parse_value n s of
        Parsed v r \<Rightarrow>
          (case skip_ws r of
             [] \<Rightarrow> Malformed
           | c # r' \<Rightarrow>
               if c = 0x2C then parse_elements n (acc @ [v]) r'
               else if c = 0x5D then Parsed (JArr (acc @ [v])) r'
               else Malformed)
      | Malformed \<Rightarrow> Malformed
      | OutOfFuel \<Rightarrow> OutOfFuel)"
| "parse_members 0 acc s = OutOfFuel"
| "parse_members (Suc n) acc s =
     (case skip_ws s of
        [] \<Rightarrow> Malformed
      | q # r \<Rightarrow>
          if q = 0x22 then
            (case parse_string r of
               None \<Rightarrow> Malformed
             | Some (k, r1) \<Rightarrow>
                 (case skip_ws r1 of
                    [] \<Rightarrow> Malformed
                  | c # r2 \<Rightarrow>
                      if c = 0x3A then
                        (case parse_value n r2 of
                           Parsed v r3 \<Rightarrow>
                             (case skip_ws r3 of
                                [] \<Rightarrow> Malformed
                              | d # r4 \<Rightarrow>
                                  if d = 0x2C then parse_members n (acc @ [(k, v)]) r4
                                  else if d = 0x7D then Parsed (JObj (acc @ [(k, v)])) r4
                                  else Malformed)
                         | Malformed \<Rightarrow> Malformed
                         | OutOfFuel \<Rightarrow> OutOfFuel)
                      else Malformed))
          else Malformed)"

text \<open>
  \<open>JSON.parse(text)\<close>: one value between optional white space, or a SyntaxError.
\<close>

definition JSON_parse :: "jsstring \<Rightarrow> error + jsval" where
  "JSON_parse s =
     (case parse_value (2 * length s + 1) s of
        Parsed v r \<Rightarrow> if skip_ws r = [] then Inr v else Inl SyntaxError
      | Malformed \<Rightarrow> Inl SyntaxError
      | OutOfFuel \<Rightarrow> Inl SyntaxError)"

subsection \<open>Property reads and truthiness\<close>

text \<open>
  \<open>v.name\<close> for a name that no built-in prototype defines (\<open>idToken\<close> and \<open>refreshToken\<close>
  are such names): an own member of an object, where the last of several members with
  one name wins, and \<open>undefined\<close> otherwise. Reading a property of \<open>null\<close> or \<open>undefined\<close>
  raises; the caller tests for that first.
\<close>

definition get_field :: "jsval \<Rightarrow> jsstring \<Rightarrow> jsval" where
  "get_field v name =
     (case v of
        JObj members \<Rightarrow> (case map_of (rev members) name of None \<Rightarrow> JUndefined | Some x \<Rightarrow> x)
      | _ \<Rightarrow> JUndefined)"

text \<open>
  \<open>ToBoolean\<close>. A number is falsy when it is zero as a double: \<open>m * 10^e\<close> rounds to zero
  exactly when it is at most \<open>2^-1075\<close>, half the least positive double.
\<close>

fun truthy :: "jsval \<Rightarrow> bool" where
  "truthy JUndefined = False"
| "truthy JNull = False"
| "truthy (JBool b) = b"
| "truthy (JNum neg m e) = (m \<noteq> 0 \<and> (0 \<le> e \<or> 10 ^ nat (- e) < m * 2 ^ 1075))"
| "truthy (JStr s) = (s \<noteq> [])"
| "truthy (JArr xs) = True"
| "truthy (JObj members) = True"

text \<open>Truthiness of a value that is a string, \<open>null\<close> or \<open>undefined\<close>.\<close>

definition truthyString :: "'a list option \<Rightarrow> bool" where
  "truthyString x = (case x of None \<Rightarrow> False | Some s \<Rightarrow> s \<noteq> [])"

section \<open>The collaborators of the handler\<close>

text \<open>
  \<open>withAuthUserTokenSSR.js\<close> imports \<open>createAuthUser\<close>, \<open>getCookie\<close>, \<open>verifyIdToken\<close>,
  the two cookie-name functions, \<open>getConfig\<close> and \<open>AuthAction\<close> from modules that are
  not part of the sources at hand. The functions are parameters of the model (the record
  \<open>env\<close>), so every theorem holds for whatever they compute; \<open>AuthAction\<close> and
  \<open>createAuthUser\<close> follow the specification.
\<close>

text \<open>
  Modelled from the spec: the module \<open>src/AuthAction\<close> is missing. Section 3 of the
  specification gives the actions as RENDER, REDIRECT_TO_APP and REDIRECT_TO_LOGIN. The
  handler only compares an action with a constant, so any action is accepted in either
  position.
\<close>

datatype AuthAction = RENDER | REDIRECT_TO_APP | REDIRECT_TO_LOGIN

text \<open>
  Modelled from the spec: the object \<open>createAuthUser\<close> and \<open>verifyIdToken\<close> return is the
  Identity of section 3, \<open>{ id: string|null, claims, idTokenValue: string|null }\<close>.
\<close>

record AuthUser =
  id' :: "string option"
  claims :: "(string \<times> jsval) list"
  idTokenValue :: "string option"

text \<open>The canonical anonymous Identity: \<open>id: null\<close>, empty claims, \<open>idTokenValue: null\<close>.\<close>

definition anonymousAuthUser :: AuthUser where
  "anonymousAuthUser = \<lparr>id' = None, claims = [], idTokenValue = None\<rparr>"

text \<open>
  Modelled from the spec: the module \<open>src/createAuthUser\<close> is missing. Called with no
  argument it returns the unauthenticated user (the handler's own comment says so, and
  section 4.3 names the canonical anonymous Identity). Called with
  \<open>{ serializedAuthUser: cookieValStr }\<close> it deserializes the cookie directly into an
  Identity whose \<open>idTokenValue\<close> is always \<open>null\<close> (section 4.3, snapshot mode), and a
  request lacking the cookie resolves to the anonymous Identity (section 8). The
  specification does not give the cookie's format: the decoding is the parameter
  \<open>deserialize\<close>, which may fail.
  The argument is \<open>None\<close> for a call without argument, \<open>Some None\<close> for an absent cookie.
\<close>

definition createAuthUser ::
  "(jsstring \<Rightarrow> error + AuthUser) \<Rightarrow> jsstring option option \<Rightarrow> error + AuthUser" where
  "createAuthUser deserialize arg =
     (case arg of
        None \<Rightarrow> Inr anonymousAuthUser
      | Some None \<Rightarrow> Inr anonymousAuthUser
      | Some (Some serializedAuthUser) \<Rightarrow>
          (case deserialize serializedAuthUser of
             Inl e \<Rightarrow> Inl e
           | Inr u \<Rightarrow> Inr (u\<lparr>idTokenValue := None\<rparr>)))"

text \<open>\<open>getConfig()\<close>: the cookie options and the global default redirect URLs.\<close>

record cookieOptions =
  keys :: "string list"
  secure :: bool
  signed :: bool

record config =
  cookies :: cookieOptions
  config_authPageURL :: "string option"
  config_appPageURL :: "string option"

text \<open>
  The collaborators. \<open>getCookie name {req, res} {keys, secure, signed}\<close> returns the
  cookie's value or \<open>undefined\<close>; \<open>verifyIdToken idToken refreshToken\<close> returns a user or
  fails; \<open>serialize\<close> is the user's \<open>serialize()\<close> method.
\<close>

record ('q, 's) env =
  getConfig :: config
  getCookie :: "string \<Rightarrow> 'q \<times> 's \<Rightarrow> cookieOptions \<Rightarrow> jsstring option"
  getAuthUserCookieName :: string
  getAuthUserTokensCookieName :: string
  verifyIdToken :: "jsval \<Rightarrow> jsval \<Rightarrow> error + AuthUser"
  deserializeAuthUser :: "jsstring \<Rightarrow> error + AuthUser"
  serialize :: "AuthUser \<Rightarrow> jsval"

section \<open>The handler\<close>

text \<open>
  The two option objects as the caller passes them: a property that is \<open>undefined\<close> is
  \<open>None\<close>. For the URLs \<open>None\<close> is also \<open>null\<close>, which is their default.
\<close>

record options =
  arg_whenAuthed :: "AuthAction option"
  arg_whenUnauthed :: "AuthAction option"
  arg_appPageURL :: "string option"
  arg_authPageURL :: "string option"

record tokenOptions =
  arg_useToken :: "bool option"

text \<open>The parameters after destructuring with their defaults (lines 32 to 39).\<close>

record policy =
  whenAuthed :: AuthAction
  whenUnauthed :: AuthAction
  appPageURL :: "string option"
  authPageURL :: "string option"
  useToken :: bool

definition orDefault :: "'a option \<Rightarrow> 'a \<Rightarrow> 'a" where
  "orDefault x d = (case x of None \<Rightarrow> d | Some v \<Rightarrow> v)"

definition destructure :: "options option \<Rightarrow> tokenOptions option \<Rightarrow> policy" where
  "destructure opts tokenOpts =
     (let opts' = orDefault opts
            \<lparr>arg_whenAuthed = None, arg_whenUnauthed = None,
             arg_appPageURL = None, arg_authPageURL = None\<rparr>;
          tokenOpts' = orDefault tokenOpts \<lparr>arg_useToken = None\<rparr>
      in \<lparr>whenAuthed = orDefault (arg_whenAuthed opts') RENDER,
          whenUnauthed = orDefault (arg_whenUnauthed opts') RENDER,
          appPageURL = arg_appPageURL opts',
          authPageURL = arg_authPageURL opts',
          useToken = orDefault (arg_useToken tokenOpts') True\<rparr>)"

text \<open>The request context of the framework; the handler stores the user in it.\<close>

record ('q, 's) ctx =
  req :: 'q
  res :: 's
  ctx_AuthUser :: "AuthUser option"

text \<open>The calls the handler makes to its collaborators, in order.\<close>

datatype ('q, 's) call =
    GetCookie string
  | VerifyIdToken jsval jsval
  | GetServerSideProps "('q, 's) ctx"

fun isVerifyIdToken :: "('q, 's) call \<Rightarrow> bool" where
  "isVerifyIdToken (VerifyIdToken idToken refreshToken) = True"
| "isVerifyIdToken c = False"

fun isGetServerSideProps :: "('q, 's) call \<Rightarrow> bool" where
  "isGetServerSideProps (GetServerSideProps c) = True"
| "isGetServerSideProps c = False"

text \<open>
  Lines 53 to 86: the user, from the token cookie (verified) or from the user cookie.
  \<open>cookieValStr ? JSON.parse(cookieValStr) : {}\<close> parses a non-empty string only;
  destructuring \<open>null\<close> raises a TypeError.
\<close>

definition getAuthUser ::
  "('q, 's) env \<Rightarrow> bool \<Rightarrow> 'q \<Rightarrow> 's \<Rightarrow> ('q, 's) call list \<times> (error + AuthUser)" where
  "getAuthUser env useTok rq rs =
     (let cookieOpts = cookies (getConfig env) in
      if useTok then
        (let name = getAuthUserTokensCookieName env;
             cookieValStr = getCookie env name (rq, rs) cookieOpts;
             parsed = (if truthyString cookieValStr
                       then (case cookieValStr of
                               Some s \<Rightarrow> JSON_parse s
                             | None \<Rightarrow> Inr (JObj []))
                       else Inr (JObj []))
         in case parsed of
              Inl e \<Rightarrow> ([GetCookie name], Inl e)
            | Inr v \<Rightarrow>
                if v = JNull \<or> v = JUndefined then ([GetCookie name], Inl TypeError)
                else
                  (let idToken = get_field v (js ''idToken'');
                       refreshToken = get_field v (js ''refreshToken'')
                   in if truthy idToken
                      then ([GetCookie name, VerifyIdToken idToken refreshToken],
                            verifyIdToken env idToken refreshToken)
                      else ([GetCookie name], createAuthUser (deserializeAuthUser env) None)))
      else
        (let name = getAuthUserCookieName env;
             cookieValStr = getCookie env name (rq, rs) cookieOpts
         in ([GetCookie name], createAuthUser (deserializeAuthUser env) (Some cookieValStr))))"

text \<open>The redirect of a result, and the two variants of the handler's result.\<close>

record redirect =
  destination :: string
  permanent :: bool

datatype RenderResult =
    Redirect redirect
  | Props "string \<rightharpoonup> jsval"

text \<open>
  Lines 89 to 113: the two redirect checks, in the order of the source. \<open>a || b\<close> is
  \<open>a\<close> when \<open>a\<close> is truthy and \<open>b\<close> otherwise; a destination that is \<open>null\<close>, \<open>undefined\<close>
  or the empty string raises the Error.
\<close>

definition orElse :: "string option \<Rightarrow> string option \<Rightarrow> string option" where
  "orElse a b = (if truthyString a then a else b)"

definition redirectTo :: "string option \<Rightarrow> string \<Rightarrow> error + redirect option" where
  "redirectTo dest message =
     (case dest of
        None \<Rightarrow> Inl (Error message)
      | Some d \<Rightarrow>
          if d = [] then Inl (Error message)
          else Inr (Some \<lparr>destination = d, permanent = False\<rparr>))"

definition unauthedMessage :: string where
  \<open>unauthedMessage =
     ''When "whenUnauthed" is set to AuthAction.REDIRECT_TO_LOGIN, "authPageURL" must be set.''\<close>

definition authedMessage :: string where
  \<open>authedMessage =
     ''When "whenAuthed" is set to AuthAction.REDIRECT_TO_APP, "appPageURL" must be set.''\<close>

text \<open>
  The two \<open>if\<close> statements, as events: \<open>UnauthedCheck\<close> is the evaluation of the condition
  of line 90, \<open>AuthedCheck\<close> that of line 103. The body of the first \<open>if\<close> returns or
  throws, so the second condition is evaluated only when the first did not hold.
  \<open>redirectChecks\<close> gives the conditions evaluated, in order, and the outcome;
  \<open>redirectDecision\<close> is the outcome.
\<close>

datatype redirectCheck = UnauthedCheck | AuthedCheck

definition redirectChecks ::
  "('q, 's) env \<Rightarrow> policy \<Rightarrow> AuthUser \<Rightarrow> redirectCheck list \<times> (error + redirect option)" where
  "redirectChecks env pol user =
     (if \<not> truthyString (id' user) \<and> whenUnauthed pol = REDIRECT_TO_LOGIN then
        ([UnauthedCheck],
         redirectTo (orElse (authPageURL pol) (config_authPageURL (getConfig env)))
           unauthedMessage)
      else if truthyString (id' user) \<and> whenAuthed pol = REDIRECT_TO_APP then
        ([UnauthedCheck, AuthedCheck],
         redirectTo (orElse (appPageURL pol) (config_appPageURL (getConfig env)))
           authedMessage)
      else ([UnauthedCheck, AuthedCheck], Inr None))"

definition redirectDecision ::
  "('q, 's) env \<Rightarrow> policy \<Rightarrow> AuthUser \<Rightarrow> error + redirect option" where
  "redirectDecision env pol user = snd (redirectChecks env pol user)"

text \<open>
  Lines 115 to 128: the composed props. The object literal
  \<open>{ AuthUserSerialized, ...composedProps }\<close> writes the reserved key first and then
  copies the properties of \<open>composedProps\<close>, so a property of the same name written by
  the spread replaces the earlier one: \<open>m ++ n\<close> is the map in which \<open>n\<close> wins.
\<close>

definition composeProps ::
  "jsval \<Rightarrow> (string \<rightharpoonup> jsval) \<Rightarrow> (string \<rightharpoonup> jsval)" where
  "composeProps AuthUserSerialized composedProps =
     [''AuthUserSerialized'' \<mapsto> AuthUserSerialized] ++ composedProps"

text \<open>
  The handler \<open>withAuthUserTokenSSR(options, tokenOptions)(getServerSidePropsFunc)(ctx)\<close>.
  It returns the calls made and either the exception that left it or its result. The
  wrapped function, when given, receives the context with the user stored in it and
  returns an object, whose own properties are the map of its props, or fails; the
  handler has no \<open>try\<close> block, so every failure of a collaborator leaves it unchanged.
  The user is serialized (line 87) before the redirect checks; \<open>serialize\<close> is total.
\<close>

definition withAuthUserTokenSSR ::
  "('q, 's) env \<Rightarrow> options option \<Rightarrow> tokenOptions option \<Rightarrow>
   (('q, 's) ctx \<Rightarrow> error + (string \<rightharpoonup> jsval)) option \<Rightarrow> ('q, 's) ctx \<Rightarrow>
   ('q, 's) call list \<times> (error + RenderResult)" where
  "withAuthUserTokenSSR env opts tokenOpts getServerSidePropsFunc c =
     (let pol = destructure opts tokenOpts in
      case getAuthUser env (useToken pol) (req c) (res c) of
        (calls, Inl e) \<Rightarrow> (calls, Inl e)
      | (calls, Inr user) \<Rightarrow>
          (let AuthUserSerialized = serialize env user in
           case redirectDecision env pol user of
             Inl e \<Rightarrow> (calls, Inl e)
           | Inr (Some r) \<Rightarrow> (calls, Inr (Redirect r))
           | Inr None \<Rightarrow>
               (case getServerSidePropsFunc of
                  None \<Rightarrow> (calls, Inr (Props (composeProps AuthUserSerialized Map.empty)))
                | Some f \<Rightarrow>
                    (let c' = c\<lparr>ctx_AuthUser := Some user\<rparr> in
                     case f c' of
                       Inl e \<Rightarrow> (calls @ [GetServerSideProps c'], Inl e)
                     | Inr composedProps \<Rightarrow>
                         (calls @ [GetServerSideProps c'],
                          Inr (Props (composeProps AuthUserSerialized composedProps)))))))"

section \<open>Concrete requests\<close>

text \<open>
  A configuration without global redirect URLs, a cookie store given by a function from
  cookie names, and collaborators that the theorems below are run against.
\<close>

definition exampleConfig :: config where
  "exampleConfig =
     \<lparr>cookies = \<lparr>keys = [''secret''], secure = True, signed = True\<rparr>,
      config_authPageURL = None, config_appPageURL = None\<rparr>"

definition exampleUser :: AuthUser where
  "exampleUser = \<lparr>id' = Some ''user-1'', claims = [], idTokenValue = Some ''abc''\<rparr>"

definition acceptingVerifier :: "jsval \<Rightarrow> jsval \<Rightarrow> error + AuthUser" where
  "acceptingVerifier idToken refreshToken = Inr exampleUser"

definition failingVerifier :: "jsval \<Rightarrow> jsval \<Rightarrow> error + AuthUser" where
  "failingVerifier idToken refreshToken = Inl AuthVerificationError"

definition exampleSerialize :: "AuthUser \<Rightarrow> jsval" where
  "exampleSerialize user =
     (case id' user of None \<Rightarrow> JStr (js ''anonymous'') | Some i \<Rightarrow> JStr (js i))"

definition exampleEnv ::
  "(string \<Rightarrow> jsstring option) \<Rightarrow> (jsval \<Rightarrow> jsval \<Rightarrow> error + AuthUser) \<Rightarrow> (unit, unit) env" where
  "exampleEnv jar verifier =
     \<lparr>getConfig = exampleConfig,
      getCookie = (\<lambda>name rr cookieOpts. jar name),
      getAuthUserCookieName = ''app.AuthUser'',
      getAuthUserTokensCookieName = ''app.AuthUserTokens'',
      verifyIdToken = verifier,
      deserializeAuthUser = (\<lambda>s. Inr exampleUser),
      serialize = exampleSerialize\<rparr>"

definition noCookies :: "string \<Rightarrow> jsstring option" where
  "noCookies name = None"

definition tokensCookie :: "jsstring \<Rightarrow> string \<Rightarrow> jsstring option" where
  "tokensCookie payload name = (if name = ''app.AuthUserTokens'' then Some payload else None)"

definition userCookie :: "jsstring \<Rightarrow> string \<Rightarrow> jsstring option" where
  "userCookie payload name = (if name = ''app.AuthUser'' then Some payload else None)"

definition exampleCtx :: "(unit, unit) ctx" where
  "exampleCtx = \<lparr>req = (), res = (), ctx_AuthUser = None\<rparr>"

definition forgingProvider :: "(unit, unit) ctx \<Rightarrow> error + (string \<rightharpoonup> jsval)" where
  "forgingProvider c = Inr [''AuthUserSerialized'' \<mapsto> JStr (js ''forged'')]"

definition titleProvider :: "(unit, unit) ctx \<Rightarrow> error + (string \<rightharpoonup> jsval)" where
  "titleProvider c = Inr [''title'' \<mapsto> JStr (js ''Home'')]"

definition emptyProvider :: "(unit, unit) ctx \<Rightarrow> error + (string \<rightharpoonup> jsval)" where
  "emptyProvider c = Inr Map.empty"

definition loginPolicy :: options where
  "loginPolicy =
     \<lparr>arg_whenAuthed = None, arg_whenUnauthed = Some REDIRECT_TO_LOGIN,
      arg_appPageURL = None, arg_authPageURL = Some ''/login''\<rparr>"

definition loginPolicyNoURL :: options where
  "loginPolicyNoURL =
     \<lparr>arg_whenAuthed = None, arg_whenUnauthed = Some REDIRECT_TO_LOGIN,
      arg_appPageURL = None, arg_authPageURL = None\<rparr>"

definition snapshotMode :: tokenOptions where
  "snapshotMode = \<lparr>arg_useToken = Some False\<rparr>"

section \<open>The fuel of \<open>JSON_parse\<close> suffices\<close>

text \<open>
  Every successful parse consumes input, so the recursion depth is bounded by the length
  of the text and \<open>JSON_parse\<close> never reports a SyntaxError for lack of fuel.
\<close>

lemma length_skip_ws: "length (skip_ws s) \<le> length s"
  by (simp add: skip_ws_def length_dropWhile_le)

lemma skip_ws_Cons: "skip_ws s = c # r \<Longrightarrow> length r < length s"
  using length_skip_ws [of s] by simp

lemma parse_string_shorter: "parse_string s = Some (str, r) \<Longrightarrow> length r < length s"
proof (induction s arbitrary: str r rule: parse_string.induct)
  case 1
  then show ?case by simp
next
  case (2 c cs)
  then show ?case
    by (fastforce simp: push_def split: if_splits list.splits option.splits)
qed

lemma strip_prefix_length: "strip_prefix p s = Some r \<Longrightarrow> length r + length p = length s"
  by (induction p s rule: strip_prefix.induct) (auto split: if_splits)

lemma parse_exp_digits_le: "parse_exp_digits b s = Some (e, r) \<Longrightarrow> length r \<le> length s"
  by (auto simp: parse_exp_digits_def length_dropWhile_le split: if_splits)

lemma parse_exp_part_le: "parse_exp_part s = Some (e, r) \<Longrightarrow> length r \<le> length s"
  by (auto simp: parse_exp_part_def split: list.splits if_splits
           dest!: parse_exp_digits_le)

lemma parse_frac_part_le: "parse_frac_part s = Some (fs, r) \<Longrightarrow> length r \<le> length s"
  by (auto simp: parse_frac_part_def le_SucI length_dropWhile_le split: list.splits if_splits)

lemma parse_int_part_shorter: "parse_int_part s = Some (ds, r) \<Longrightarrow> length r < length s"
  by (auto simp: parse_int_part_def less_Suc_eq_le length_dropWhile_le split: list.splits if_splits)

lemma parse_unsigned_shorter: "parse_unsigned b s = Some (v, r) \<Longrightarrow> length r < length s"
  by (auto simp: parse_unsigned_def split: option.splits
           dest!: parse_int_part_shorter parse_frac_part_le parse_exp_part_le)

lemma parse_number_shorter: "parse_number s = Some (v, r) \<Longrightarrow> length r < length s"
  by (auto simp: parse_number_def split: list.splits if_splits dest!: parse_unsigned_shorter)

lemma parse_scalar_shorter: "parse_scalar s = Parsed v r \<Longrightarrow> length r < length s"
  by (auto simp: parse_scalar_def js_def split: list.splits if_splits option.splits
           dest!: parse_number_shorter parse_string_shorter strip_prefix_length)

lemma parse_shorter:
  "(\<forall>s v r. parse_value n s = Parsed v r \<longrightarrow> length r < length s) \<and>
   (\<forall>acc s v r. parse_elements n acc s = Parsed v r \<longrightarrow> length r < length s) \<and>
   (\<forall>acc s v r. parse_members n acc s = Parsed v r \<longrightarrow> length r < length s)"
proof (induction n)
  case 0
  show ?case by simp
next
  case (Suc n)
  have V: "\<And>s v r. parse_value n s = Parsed v r \<Longrightarrow> length r < length s"
    and E: "\<And>acc s v r. parse_elements n acc s = Parsed v r \<Longrightarrow> length r < length s"
    and M: "\<And>acc s v r. parse_members n acc s = Parsed v r \<Longrightarrow> length r < length s"
    using Suc.IH by blast+
  have 1: "length r < length s" if "parse_value (Suc n) s = Parsed v r" for s v r
    using that
    by (auto split: list.splits if_splits
             dest!: skip_ws_Cons parse_scalar_shorter E M)
  have 2: "length r < length s" if "parse_elements (Suc n) acc s = Parsed v r" for acc s v r
    using that
    by (auto split: list.splits if_splits parsed.splits
             dest!: skip_ws_Cons V E)
  have 3: "length r < length s" if "parse_members (Suc n) acc s = Parsed v r" for acc s v r
    using that
    by (auto split: list.splits if_splits parsed.splits option.splits
             dest!: skip_ws_Cons parse_string_shorter V M)
  show ?case using 1 2 3 by blast
qed

lemma parse_value_shorter: "parse_value n s = Parsed v r \<Longrightarrow> length r < length s"
  using parse_shorter by blast

lemma parse_fuel:
  "(\<forall>s. 2 * length s < n \<longrightarrow> parse_value n s \<noteq> OutOfFuel) \<and>
   (\<forall>acc s. 2 * length s + 1 < n \<longrightarrow> parse_elements n acc s \<noteq> OutOfFuel) \<and>
   (\<forall>acc s. 2 * length s + 1 < n \<longrightarrow> parse_members n acc s \<noteq> OutOfFuel)"
proof (induction n)
  case 0
  show ?case by simp
next
  case (Suc n)
  have V: "\<And>s. 2 * length s < n \<Longrightarrow> parse_value n s \<noteq> OutOfFuel"
    and E: "\<And>acc s. 2 * length s + 1 < n \<Longrightarrow> parse_elements n acc s \<noteq> OutOfFuel"
    and M: "\<And>acc s. 2 * length s + 1 < n \<Longrightarrow> parse_members n acc s \<noteq> OutOfFuel"
    using Suc.IH by blast+
  have scalar: "parse_scalar s \<noteq> OutOfFuel" for s
    by (simp add: parse_scalar_def split: list.splits option.splits)
  have 1: "parse_value (Suc n) s \<noteq> OutOfFuel" if "2 * length s < Suc n" for s
  proof (cases "skip_ws s")
    case Nil
    then show ?thesis by simp
  next
    case (Cons c r)
    then have r: "length r < length s" by (rule skip_ws_Cons)
    show ?thesis
    proof (cases "skip_ws r")
      case Nil
      then show ?thesis using Cons scalar [of "c # r"] by simp
    next
      case (Cons d r')
      have "length (d # r') \<le> length r"
        using length_skip_ws [of r] Cons by simp
      then have "2 * length (d # r') + 1 < n" using r that by linarith
      then have "parse_elements n [] (d # r') \<noteq> OutOfFuel"
        and "parse_members n [] (d # r') \<noteq> OutOfFuel"
        using E M by blast+
      then show ?thesis using Cons \<open>skip_ws s = c # r\<close> scalar [of "c # r"] by auto
    qed
  qed
  have 2: "parse_elements (Suc n) acc s \<noteq> OutOfFuel" if "2 * length s + 1 < Suc n" for acc s
  proof (cases "parse_value n s")
    case (Parsed v r)
    then have r: "length r < length s" by (rule parse_value_shorter)
    show ?thesis
    proof (cases "skip_ws r")
      case Nil
      then show ?thesis using Parsed by simp
    next
      case (Cons c r')
      then have "length r' < length r" by (rule skip_ws_Cons)
      then have "2 * length r' + 1 < n" using r that by linarith
      then have "parse_elements n (acc @ [v]) r' \<noteq> OutOfFuel" using E by blast
      then show ?thesis using Parsed Cons by simp
    qed
  next
    case Malformed
    then show ?thesis by simp
  next
    case OutOfFuel
    moreover have "2 * length s < n" using that by linarith
    ultimately show ?thesis using V by blast
  qed
  have 3: "parse_members (Suc n) acc s \<noteq> OutOfFuel" if "2 * length s + 1 < Suc n" for acc s
  proof -
    have step: "parse_value n r2 \<noteq> OutOfFuel" if "length r2 < length s" for r2
      using that \<open>2 * length s + 1 < Suc n\<close> V [of r2] by linarith
    have rest: "parse_members n acc' r4 \<noteq> OutOfFuel" if "length r4 < length s" for acc' r4
      using that \<open>2 * length s + 1 < Suc n\<close> M [of r4 acc'] by linarith
    have shorter: "length r4 < length s"
      if "skip_ws s = q # r" "parse_string r = Some (k, r1)" "skip_ws r1 = c # r2"
         "parse_value n r2 = Parsed v r3" "skip_ws r3 = d # r4" for q r k r1 c r2 v r3 d r4
      using skip_ws_Cons [OF that(1)] parse_string_shorter [OF that(2)]
        skip_ws_Cons [OF that(3)] parse_value_shorter [OF that(4)] skip_ws_Cons [OF that(5)]
      by linarith
    have shorter2: "length r2 < length s"
      if "skip_ws s = q # r" "parse_string r = Some (k, r1)" "skip_ws r1 = c # r2"
      for q r k r1 c r2
      using skip_ws_Cons [OF that(1)] parse_string_shorter [OF that(2)]
        skip_ws_Cons [OF that(3)]
      by linarith
    show ?thesis
      by (auto split: list.splits if_splits parsed.splits option.splits
               dest: shorter2 [THEN step] shorter [THEN rest])
  qed
  show ?case using 1 2 3 by blast
qed

lemma JSON_parse_fuel: "parse_value (2 * length s + 1) s \<noteq> OutOfFuel"
  using parse_fuel [of "2 * length s + 1"] by simp

lemma JSON_parse_error: "JSON_parse s = Inl e \<Longrightarrow> e = SyntaxError"
  by (auto simp: JSON_parse_def split: parsed.splits if_splits)

text \<open>The payloads used below.\<close>

lemma JSON_parse_unclosed: \<open>JSON_parse (js ''{'') = Inl SyntaxError\<close>
  by code_simp

lemma JSON_parse_idToken_only:
  \<open>JSON_parse (js ''{"idToken":"abc"}'') = Inr (JObj [(js ''idToken'', JStr (js ''abc''))])\<close>
  by code_simp

lemma JSON_parse_pair:
  \<open>JSON_parse (js ''{"idToken":"expired","refreshToken":"revoked"}'') =
     Inr (JObj [(js ''idToken'', JStr (js ''expired'')),
                (js ''refreshToken'', JStr (js ''revoked''))])\<close>
  by code_simp

lemma JSON_parse_refresh_only:
  \<open>JSON_parse (js ''{"refreshToken":"def"}'') =
     Inr (JObj [(js ''refreshToken'', JStr (js ''def''))])\<close>
  by code_simp

section \<open>The handler, path by path\<close>

lemma truthyString_simps [simp]:
  "truthyString None = False"
  "truthyString (Some s) = (s \<noteq> [])"
  by (simp_all add: truthyString_def)

lemma getAuthUser_no_cookie:
  assumes "\<not> truthyString (getCookie env (getAuthUserTokensCookieName env) (rq, rs)
             (cookies (getConfig env)))"
  shows "getAuthUser env True rq rs =
           ([GetCookie (getAuthUserTokensCookieName env)], Inr anonymousAuthUser)"
  using assms
  by (simp add: getAuthUser_def Let_def get_field_def createAuthUser_def)

lemma getAuthUser_parse_error:
  assumes "getCookie env (getAuthUserTokensCookieName env) (rq, rs) (cookies (getConfig env))
             = Some s"
    and "s \<noteq> []" and "JSON_parse s = Inl e"
  shows "getAuthUser env True rq rs = ([GetCookie (getAuthUserTokensCookieName env)], Inl e)"
  using assms by (simp add: getAuthUser_def Let_def)

lemma getAuthUser_null:
  assumes "getCookie env (getAuthUserTokensCookieName env) (rq, rs) (cookies (getConfig env))
             = Some s"
    and "s \<noteq> []" and "JSON_parse s = Inr JNull"
  shows "getAuthUser env True rq rs =
           ([GetCookie (getAuthUserTokensCookieName env)], Inl TypeError)"
  using assms by (simp add: getAuthUser_def Let_def)

lemma getAuthUser_no_idToken:
  assumes "getCookie env (getAuthUserTokensCookieName env) (rq, rs) (cookies (getConfig env))
             = Some s"
    and "s \<noteq> []" and "JSON_parse s = Inr v" and "v \<noteq> JNull" and "v \<noteq> JUndefined"
    and "\<not> truthy (get_field v (js ''idToken''))"
  shows "getAuthUser env True rq rs =
           ([GetCookie (getAuthUserTokensCookieName env)], Inr anonymousAuthUser)"
  using assms by (simp add: getAuthUser_def Let_def createAuthUser_def)

lemma getAuthUser_verifies:
  assumes "getCookie env (getAuthUserTokensCookieName env) (rq, rs) (cookies (getConfig env))
             = Some s"
    and "s \<noteq> []" and "JSON_parse s = Inr v" and "v \<noteq> JNull" and "v \<noteq> JUndefined"
    and "truthy (get_field v (js ''idToken''))"
  shows "getAuthUser env True rq rs =
           ([GetCookie (getAuthUserTokensCookieName env),
             VerifyIdToken (get_field v (js ''idToken'')) (get_field v (js ''refreshToken''))],
            verifyIdToken env (get_field v (js ''idToken''))
              (get_field v (js ''refreshToken'')))"
  using assms by (simp add: getAuthUser_def Let_def)

lemma getAuthUser_snapshot:
  "getAuthUser env False rq rs =
     ([GetCookie (getAuthUserCookieName env)],
      createAuthUser (deserializeAuthUser env)
        (Some (getCookie env (getAuthUserCookieName env) (rq, rs) (cookies (getConfig env)))))"
  by (simp add: getAuthUser_def Let_def)

lemma getAuthUser_no_provider_call:
  "filter isGetServerSideProps (fst (getAuthUser env useTok rq rs)) = []"
  by (simp add: getAuthUser_def Let_def split: sum.splits)

lemma handler_resolution_fails:
  assumes "getAuthUser env (useToken (destructure opts tokenOpts)) (req c) (res c)
             = (calls, Inl e)"
  shows "withAuthUserTokenSSR env opts tokenOpts f c = (calls, Inl e)"
  using assms by (simp add: withAuthUserTokenSSR_def)

lemma handler_decision_fails:
  assumes "getAuthUser env (useToken (destructure opts tokenOpts)) (req c) (res c)
             = (calls, Inr user)"
    and "redirectDecision env (destructure opts tokenOpts) user = Inl e"
  shows "withAuthUserTokenSSR env opts tokenOpts f c = (calls, Inl e)"
  using assms by (simp add: withAuthUserTokenSSR_def)

lemma handler_redirects:
  assumes "getAuthUser env (useToken (destructure opts tokenOpts)) (req c) (res c)
             = (calls, Inr user)"
    and "redirectDecision env (destructure opts tokenOpts) user = Inr (Some r)"
  shows "withAuthUserTokenSSR env opts tokenOpts f c = (calls, Inr (Redirect r))"
  using assms by (simp add: withAuthUserTokenSSR_def)

lemma handler_renders_alone:
  assumes "getAuthUser env (useToken (destructure opts tokenOpts)) (req c) (res c)
             = (calls, Inr user)"
    and "redirectDecision env (destructure opts tokenOpts) user = Inr None"
  shows "withAuthUserTokenSSR env opts tokenOpts None c =
           (calls, Inr (Props (composeProps (serialize env user) Map.empty)))"
  using assms by (simp add: withAuthUserTokenSSR_def)

lemma handler_renders_composed:
  assumes "getAuthUser env (useToken (destructure opts tokenOpts)) (req c) (res c)
             = (calls, Inr user)"
    and "redirectDecision env (destructure opts tokenOpts) user = Inr None"
  shows "withAuthUserTokenSSR env opts tokenOpts (Some f) c =
           (calls @ [GetServerSideProps (c\<lparr>ctx_AuthUser := Some user\<rparr>)],
            (case f (c\<lparr>ctx_AuthUser := Some user\<rparr>) of
               Inl e \<Rightarrow> Inl e
             | Inr composedProps \<Rightarrow>
                 Inr (Props (composeProps (serialize env user) composedProps))))"
  using assms by (simp add: withAuthUserTokenSSR_def Let_def split: sum.splits)

lemma handler_verifier_calls:
  "filter isVerifyIdToken (fst (withAuthUserTokenSSR env opts tokenOpts f c)) =
   filter isVerifyIdToken
     (fst (getAuthUser env (useToken (destructure opts tokenOpts)) (req c) (res c)))"
  by (simp add: withAuthUserTokenSSR_def Let_def
           split: prod.splits sum.splits option.splits)

lemma redirectDecision_unfold:
  "redirectDecision env pol user =
     (if \<not> truthyString (id' user) \<and> whenUnauthed pol = REDIRECT_TO_LOGIN then
        redirectTo (orElse (authPageURL pol) (config_authPageURL (getConfig env)))
          unauthedMessage
      else if truthyString (id' user) \<and> whenAuthed pol = REDIRECT_TO_APP then
        redirectTo (orElse (appPageURL pol) (config_appPageURL (getConfig env)))
          authedMessage
      else Inr None)"
  by (simp add: redirectDecision_def redirectChecks_def)

lemma redirectTo_permanent:
  "redirectTo dest message = Inr (Some r) \<Longrightarrow> permanent r = False"
  by (auto simp: redirectTo_def split: option.splits if_splits)

lemma redirectDecision_permanent:
  "redirectDecision env pol user = Inr (Some r) \<Longrightarrow> permanent r = False"
  by (auto simp: redirectDecision_unfold split: if_splits dest: redirectTo_permanent)

lemma destructure_defaults:
  "destructure None None =
     \<lparr>whenAuthed = RENDER, whenUnauthed = RENDER, appPageURL = None, authPageURL = None,
      useToken = True\<rparr>"
  by (simp add: destructure_def orDefault_def)

lemma example_env_simps:
  "getConfig (exampleEnv jar verifier) = exampleConfig"
  "getCookie (exampleEnv jar verifier) name rr cookieOpts = jar name"
  "getAuthUserCookieName (exampleEnv jar verifier) = ''app.AuthUser''"
  "getAuthUserTokensCookieName (exampleEnv jar verifier) = ''app.AuthUserTokens''"
  "verifyIdToken (exampleEnv jar verifier) = verifier"
  "deserializeAuthUser (exampleEnv jar verifier) s = Inr exampleUser"
  "serialize (exampleEnv jar verifier) = exampleSerialize"
  by (simp_all add: exampleEnv_def)

lemma example_anonymous:
  "getAuthUser (exampleEnv noCookies verifier) True rq rs =
     ([GetCookie ''app.AuthUserTokens''], Inr anonymousAuthUser)"
  using getAuthUser_no_cookie [of "exampleEnv noCookies verifier" rq rs]
  by (simp add: example_env_simps noCookies_def)

lemma example_verified:
  \<open>getAuthUser (exampleEnv (tokensCookie (js ''{"idToken":"abc"}'')) verifier) True rq rs =
     ([GetCookie ''app.AuthUserTokens'', VerifyIdToken (JStr (js ''abc'')) JUndefined],
      verifier (JStr (js ''abc'')) JUndefined)\<close>
  using getAuthUser_verifies [OF _ _ JSON_parse_idToken_only,
      of \<open>exampleEnv (tokensCookie (js ''{"idToken":"abc"}'')) verifier\<close> rq rs]
  by (simp add: example_env_simps tokensCookie_def get_field_def js_def)

lemma default_useToken: "useToken (destructure None None) = True"
  by (simp add: destructure_defaults)

section \<open>The claims\<close>

subsection \<open>C1: the reserved key of the merged props\<close>

text \<open>
  C1, as stated, fails: the object literal \<open>{ AuthUserSerialized, ...composedProps }\<close>
  assigns the reserved key first and spreads the wrapped provider's props after it, so a
  provider that returns a property named \<open>AuthUserSerialized\<close> replaces the serialized
  user. Here no cookie is sent, the user is the anonymous one, and the props carry the
  provider's value instead of the serialized anonymous user.
\<close>

theorem C1_provider_overwrites_reserved_key:
  "getAuthUser (exampleEnv noCookies acceptingVerifier) True (req exampleCtx) (res exampleCtx)
     = ([GetCookie ''app.AuthUserTokens''], Inr anonymousAuthUser) \<and>
   serialize (exampleEnv noCookies acceptingVerifier) anonymousAuthUser
     = JStr (js ''anonymous'') \<and>
   snd (withAuthUserTokenSSR (exampleEnv noCookies acceptingVerifier) None None
          (Some forgingProvider) exampleCtx)
     = Inr (Props [''AuthUserSerialized'' \<mapsto> JStr (js ''forged'')]) \<and>
   JStr (js ''forged'') \<noteq> JStr (js ''anonymous'')"
proof -
  let ?env = "exampleEnv noCookies acceptingVerifier"
  have user: "getAuthUser ?env (useToken (destructure None None)) (req exampleCtx)
                (res exampleCtx) = ([GetCookie ''app.AuthUserTokens''], Inr anonymousAuthUser)"
    by (simp add: default_useToken example_anonymous)
  have decision: "redirectDecision ?env (destructure None None) anonymousAuthUser = Inr None"
    by (simp add: redirectDecision_unfold destructure_defaults)
  have "snd (withAuthUserTokenSSR ?env None None (Some forgingProvider) exampleCtx)
          = Inr (Props [''AuthUserSerialized'' \<mapsto> JStr (js ''forged'')])"
    by (simp add: handler_renders_composed [OF user decision] forgingProvider_def
          composeProps_def)
  moreover have "serialize ?env anonymousAuthUser = JStr (js ''anonymous'')"
    by (simp add: example_env_simps exampleSerialize_def anonymousAuthUser_def)
  moreover have "JStr (js ''forged'') \<noteq> JStr (js ''anonymous'')"
    by (simp add: js_def)
  ultimately show ?thesis
    using user by (simp add: default_useToken)
qed

text \<open>
  C1, amended: for every wrapped provider result, the props returned by the handler
  contain the reserved key \<open>AuthUserSerialized\<close>, also when the provider returns an
  empty props object; every key set by the provider carries the provider's value; and
  the reserved key carries the serialized user whenever the provider does not set that
  key itself. (The reserved key is assigned first in the merge order, so a provider
  that sets it wins.)
\<close>

theorem C1_reserved_key_present:
  assumes "getAuthUser env (useToken (destructure opts tokenOpts)) (req c) (res c)
             = (calls, Inr user)"
    and "redirectDecision env (destructure opts tokenOpts) user = Inr None"
    and "f (c\<lparr>ctx_AuthUser := Some user\<rparr>) = Inr composedProps"
  shows "\<exists>props.
           snd (withAuthUserTokenSSR env opts tokenOpts (Some f) c) = Inr (Props props) \<and>
           ''AuthUserSerialized'' \<in> dom props \<and>
           dom props = insert ''AuthUserSerialized'' (dom composedProps) \<and>
           (\<forall>k \<in> dom composedProps. props k = composedProps k) \<and>
           (''AuthUserSerialized'' \<notin> dom composedProps \<longrightarrow>
              props ''AuthUserSerialized'' = Some (serialize env user))"
proof -
  let ?props = "composeProps (serialize env user) composedProps"
  have "snd (withAuthUserTokenSSR env opts tokenOpts (Some f) c) = Inr (Props ?props)"
    by (simp add: handler_renders_composed [OF assms(1,2)] assms(3))
  moreover have "dom ?props = insert ''AuthUserSerialized'' (dom composedProps)"
    by (auto simp: composeProps_def)
  moreover have "\<forall>k \<in> dom composedProps. ?props k = composedProps k"
    by (auto simp: composeProps_def map_add_def)
  moreover have "''AuthUserSerialized'' \<notin> dom composedProps \<longrightarrow>
                   ?props ''AuthUserSerialized'' = Some (serialize env user)"
    by (auto simp: composeProps_def map_add_def split: option.splits)
  ultimately show ?thesis by blast
qed

theorem C1_reserved_key_present_witness:
  "\<exists>props.
     snd (withAuthUserTokenSSR (exampleEnv noCookies acceptingVerifier) None None
            (Some emptyProvider) exampleCtx) = Inr (Props props) \<and>
     ''AuthUserSerialized'' \<in> dom props \<and>
     props ''AuthUserSerialized'' = Some (JStr (js ''anonymous''))"
proof -
  let ?env = "exampleEnv noCookies acceptingVerifier"
  have user: "getAuthUser ?env (useToken (destructure None None)) (req exampleCtx)
                (res exampleCtx) = ([GetCookie ''app.AuthUserTokens''], Inr anonymousAuthUser)"
    by (simp add: default_useToken example_anonymous)
  have decision: "redirectDecision ?env (destructure None None) anonymousAuthUser = Inr None"
    by (simp add: redirectDecision_unfold destructure_defaults)
  have provider: "emptyProvider (exampleCtx\<lparr>ctx_AuthUser := Some anonymousAuthUser\<rparr>)
                    = Inr Map.empty"
    by (simp add: emptyProvider_def)
  have ser: "serialize ?env anonymousAuthUser = JStr (js ''anonymous'')"
    by (simp add: example_env_simps exampleSerialize_def anonymousAuthUser_def)
  from C1_reserved_key_present [where f = emptyProvider, OF user decision provider] ser
  show ?thesis by auto
qed

subsection \<open>C2: a cookie that is not well-formed JSON\<close>

text \<open>
  C2, as stated, fails: \<open>JSON.parse(cookieValStr)\<close> is not guarded, so the SyntaxError
  of a malformed payload leaves the handler. Here the token cookie holds the single
  character \<open>{\<close>.
\<close>

theorem C2_malformed_cookie_raises:
  "JSON_parse (js ''{'') = Inl SyntaxError \<and>
   withAuthUserTokenSSR (exampleEnv (tokensCookie (js ''{'')) acceptingVerifier) None None
     None exampleCtx
     = ([GetCookie ''app.AuthUserTokens''], Inl SyntaxError)"
proof -
  let ?env = "exampleEnv (tokensCookie (js ''{'')) acceptingVerifier"
  have "getAuthUser ?env True (req exampleCtx) (res exampleCtx)
          = ([GetCookie (getAuthUserTokensCookieName ?env)], Inl SyntaxError)"
    by (rule getAuthUser_parse_error [OF _ _ JSON_parse_unclosed])
       (simp_all add: example_env_simps tokensCookie_def js_def)
  then show ?thesis
    by (simp add: handler_resolution_fails default_useToken example_env_simps
          JSON_parse_unclosed)
qed

text \<open>
  C2, amended: in token mode, for every cookie payload that is present, non-empty and
  not well-formed JSON, the handler propagates the parsing exception (a SyntaxError) to
  the caller: only the cookie has been read, no identity is resolved, no redirect is
  decided and the wrapped provider is not invoked.
\<close>

theorem C2_parse_error_propagates:
  assumes "useToken (destructure opts tokenOpts)"
    and "getCookie env (getAuthUserTokensCookieName env) (req c, res c)
           (cookies (getConfig env)) = Some s"
    and "s \<noteq> []"
    and "JSON_parse s = Inl e"
  shows "withAuthUserTokenSSR env opts tokenOpts f c
           = ([GetCookie (getAuthUserTokensCookieName env)], Inl SyntaxError)"
proof -
  have "e = SyntaxError" using assms(4) by (rule JSON_parse_error)
  then have "getAuthUser env (useToken (destructure opts tokenOpts)) (req c) (res c)
               = ([GetCookie (getAuthUserTokensCookieName env)], Inl SyntaxError)"
    using getAuthUser_parse_error [OF assms(2,3,4)] assms(1) by simp
  then show ?thesis by (rule handler_resolution_fails)
qed

theorem C2_parse_error_propagates_witness:
  "withAuthUserTokenSSR (exampleEnv (tokensCookie (js ''{'')) failingVerifier) None None
     (Some titleProvider) exampleCtx
     = ([GetCookie ''app.AuthUserTokens''], Inl SyntaxError)"
proof -
  let ?env = "exampleEnv (tokensCookie (js ''{'')) failingVerifier"
  have mode: "useToken (destructure None None)" by (simp add: default_useToken)
  have cookie: "getCookie ?env (getAuthUserTokensCookieName ?env)
                  (req exampleCtx, res exampleCtx) (cookies (getConfig ?env)) = Some (js ''{'')"
    by (simp add: example_env_simps tokensCookie_def)
  have nonempty: "js ''{'' \<noteq> []" by (simp add: js_def)
  from C2_parse_error_propagates [OF mode cookie nonempty JSON_parse_unclosed]
  show ?thesis by (simp add: example_env_simps)
qed

subsection \<open>C3: what counts as "no credential"\<close>

text \<open>
  C3, as stated, fails: the handler tests \<open>idToken\<close> only. A payload with an id token
  and no refresh token is a credential: the verifier is invoked, with \<open>undefined\<close> as
  the refresh token, and the user it returns is not the anonymous one.
\<close>

theorem C3_missing_refreshToken_still_verified:
  \<open>JSON_parse (js ''{"idToken":"abc"}'') = Inr (JObj [(js ''idToken'', JStr (js ''abc''))]) \<and>
   get_field (JObj [(js ''idToken'', JStr (js ''abc''))]) (js ''refreshToken'') = JUndefined \<and>
   getAuthUser (exampleEnv (tokensCookie (js ''{"idToken":"abc"}'')) acceptingVerifier) True
       (req exampleCtx) (res exampleCtx)
     = ([GetCookie ''app.AuthUserTokens'', VerifyIdToken (JStr (js ''abc'')) JUndefined],
        Inr exampleUser) \<and>
   filter isVerifyIdToken
       (fst (withAuthUserTokenSSR
               (exampleEnv (tokensCookie (js ''{"idToken":"abc"}'')) acceptingVerifier)
               None None None exampleCtx))
     = [VerifyIdToken (JStr (js ''abc'')) JUndefined] \<and>
   exampleUser \<noteq> anonymousAuthUser\<close>
proof -
  have "get_field (JObj [(js ''idToken'', JStr (js ''abc''))]) (js ''refreshToken'')
          = JUndefined"
    by (simp add: get_field_def js_def)
  moreover have "exampleUser \<noteq> anonymousAuthUser"
    by (simp add: exampleUser_def anonymousAuthUser_def)
  ultimately show ?thesis
    by (simp add: JSON_parse_idToken_only handler_verifier_calls default_useToken
          example_verified acceptingVerifier_def)
qed

text \<open>
  C3, amended: in token mode, when the cookie is absent or empty, or when the decoded
  payload (other than \<open>null\<close>) has no \<open>idToken\<close> field or a falsy one, the payload is
  treated as "no credential": the verifier is not invoked and the resolver produces the
  canonical anonymous Identity. The absence of the \<open>refreshToken\<close> field alone does not
  make a payload "no credential": whenever \<open>idToken\<close> is truthy the verifier is invoked,
  with the id token and whatever the \<open>refreshToken\<close> field holds (\<open>undefined\<close> when it is
  absent).
\<close>

theorem C3_no_idToken_no_credential:
  assumes "cookieValStr = getCookie env (getAuthUserTokensCookieName env) (rq, rs)
             (cookies (getConfig env))"
  shows "(\<not> truthyString cookieValStr \<longrightarrow>
            getAuthUser env True rq rs
              = ([GetCookie (getAuthUserTokensCookieName env)], Inr anonymousAuthUser)) \<and>
         (\<forall>s v. cookieValStr = Some s \<and> s \<noteq> [] \<and> JSON_parse s = Inr v \<and>
                 v \<noteq> JNull \<and> v \<noteq> JUndefined \<and>
                 \<not> truthy (get_field v (js ''idToken'')) \<longrightarrow>
            getAuthUser env True rq rs
              = ([GetCookie (getAuthUserTokensCookieName env)], Inr anonymousAuthUser)) \<and>
         (\<forall>s v. cookieValStr = Some s \<and> s \<noteq> [] \<and> JSON_parse s = Inr v \<and>
                 v \<noteq> JNull \<and> v \<noteq> JUndefined \<and>
                 truthy (get_field v (js ''idToken'')) \<longrightarrow>
            getAuthUser env True rq rs
              = ([GetCookie (getAuthUserTokensCookieName env),
                  VerifyIdToken (get_field v (js ''idToken''))
                    (get_field v (js ''refreshToken''))],
                 verifyIdToken env (get_field v (js ''idToken''))
                   (get_field v (js ''refreshToken''))))"
proof (intro conjI allI impI)
  assume "\<not> truthyString cookieValStr"
  then show "getAuthUser env True rq rs
               = ([GetCookie (getAuthUserTokensCookieName env)], Inr anonymousAuthUser)"
    unfolding assms by (rule getAuthUser_no_cookie)
next
  fix s v
  assume "cookieValStr = Some s \<and> s \<noteq> [] \<and> JSON_parse s = Inr v \<and> v \<noteq> JNull \<and>
          v \<noteq> JUndefined \<and> \<not> truthy (get_field v (js ''idToken''))"
  then show "getAuthUser env True rq rs
               = ([GetCookie (getAuthUserTokensCookieName env)], Inr anonymousAuthUser)"
    using getAuthUser_no_idToken [of env rq rs s v] assms by simp
next
  fix s v
  assume "cookieValStr = Some s \<and> s \<noteq> [] \<and> JSON_parse s = Inr v \<and> v \<noteq> JNull \<and>
          v \<noteq> JUndefined \<and> truthy (get_field v (js ''idToken''))"
  then show "getAuthUser env True rq rs
               = ([GetCookie (getAuthUserTokensCookieName env),
                   VerifyIdToken (get_field v (js ''idToken''))
                     (get_field v (js ''refreshToken''))],
                  verifyIdToken env (get_field v (js ''idToken''))
                    (get_field v (js ''refreshToken'')))"
    using getAuthUser_verifies [of env rq rs s v] assms by simp
qed

theorem C3_no_idToken_no_credential_witness:
  \<open>getAuthUser (exampleEnv (tokensCookie (js ''{"refreshToken":"def"}'')) failingVerifier)
       True () ()
     = ([GetCookie ''app.AuthUserTokens''], Inr anonymousAuthUser) \<and>
   getAuthUser (exampleEnv (tokensCookie []) failingVerifier) True () ()
     = ([GetCookie ''app.AuthUserTokens''], Inr anonymousAuthUser) \<and>
   getAuthUser (exampleEnv (tokensCookie (js ''{"idToken":"abc"}'')) failingVerifier)
       True () ()
     = ([GetCookie ''app.AuthUserTokens'', VerifyIdToken (JStr (js ''abc'')) JUndefined],
        Inl AuthVerificationError)\<close>
proof -
  let ?refresh = \<open>js ''{"refreshToken":"def"}''\<close>
  let ?id = \<open>js ''{"idToken":"abc"}''\<close>
  let ?env = "\<lambda>payload. exampleEnv (tokensCookie payload) failingVerifier"
  have cookie: "Some payload = getCookie (?env payload) (getAuthUserTokensCookieName (?env payload))
                  ((), ()) (cookies (getConfig (?env payload)))" for payload
    by (simp add: example_env_simps tokensCookie_def)
  have fields:
    "get_field (JObj [(js ''refreshToken'', JStr (js ''def''))]) (js ''idToken'') = JUndefined"
    "get_field (JObj [(js ''idToken'', JStr (js ''abc''))]) (js ''idToken'') = JStr (js ''abc'')"
    "get_field (JObj [(js ''idToken'', JStr (js ''abc''))]) (js ''refreshToken'') = JUndefined"
    by (simp_all add: get_field_def js_def)
  have nonempty: "?refresh \<noteq> []" "?id \<noteq> []" "js ''abc'' \<noteq> []"
    by (simp_all add: js_def)
  from C3_no_idToken_no_credential [OF cookie [of ?refresh]]
  have 1: "getAuthUser (?env ?refresh) True () ()
             = ([GetCookie ''app.AuthUserTokens''], Inr anonymousAuthUser)"
    using JSON_parse_refresh_only fields nonempty by (simp add: example_env_simps)
  from C3_no_idToken_no_credential [OF cookie [of "[]"]]
  have 2: "getAuthUser (?env []) True () ()
             = ([GetCookie ''app.AuthUserTokens''], Inr anonymousAuthUser)"
    by (simp add: example_env_simps)
  from C3_no_idToken_no_credential [OF cookie [of ?id]]
  have 3: "getAuthUser (?env ?id) True () ()
             = ([GetCookie ''app.AuthUserTokens'', VerifyIdToken (JStr (js ''abc'')) JUndefined],
                Inl AuthVerificationError)"
    using JSON_parse_idToken_only fields nonempty
    by (simp add: example_env_simps failingVerifier_def)
  from 1 2 3 show ?thesis by simp
qed

subsection \<open>C4: a verification that fails\<close>

text \<open>
  C4, as stated, fails: \<open>await verifyIdToken(idToken, refreshToken)\<close> is not guarded, so
  a failure of the verifier leaves the handler instead of becoming the anonymous
  Identity. Here the cookie carries an expired id token and a revoked refresh token, the
  verifier fails, and the handler's outcome is that failure.
\<close>

theorem C4_verifier_failure_escapes:
  \<open>withAuthUserTokenSSR
     (exampleEnv (tokensCookie (js ''{"idToken":"expired","refreshToken":"revoked"}''))
        failingVerifier)
     None None (Some titleProvider) exampleCtx
     = ([GetCookie ''app.AuthUserTokens'',
         VerifyIdToken (JStr (js ''expired'')) (JStr (js ''revoked''))],
        Inl AuthVerificationError)\<close>
proof -
  let ?payload = \<open>js ''{"idToken":"expired","refreshToken":"revoked"}''\<close>
  let ?env = "exampleEnv (tokensCookie ?payload) failingVerifier"
  have "getAuthUser ?env True (req exampleCtx) (res exampleCtx)
          = ([GetCookie ''app.AuthUserTokens'',
              VerifyIdToken (JStr (js ''expired'')) (JStr (js ''revoked''))],
             Inl AuthVerificationError)"
    using getAuthUser_verifies [OF _ _ JSON_parse_pair, of ?env "req exampleCtx" "res exampleCtx"]
    by (simp add: example_env_simps tokensCookie_def get_field_def js_def failingVerifier_def)
  then show ?thesis
    by (simp add: handler_resolution_fails default_useToken)
qed

text \<open>
  C4, amended: for every credential whose verification or refresh fails, the failure
  raised by the Identity Verifier is not caught by the handler: it leaves the handler
  unchanged, as the handler's own failure, after the cookie read and the one call of the
  verifier; no redirect is decided and the wrapped provider is not invoked.
\<close>

theorem C4_verifier_failure_propagates:
  assumes "useToken (destructure opts tokenOpts)"
    and "getCookie env (getAuthUserTokensCookieName env) (req c, res c)
           (cookies (getConfig env)) = Some s"
    and "s \<noteq> []"
    and "JSON_parse s = Inr v"
    and "v \<noteq> JNull" and "v \<noteq> JUndefined"
    and "truthy (get_field v (js ''idToken''))"
    and "verifyIdToken env (get_field v (js ''idToken'')) (get_field v (js ''refreshToken''))
           = Inl e"
  shows "withAuthUserTokenSSR env opts tokenOpts f c
           = ([GetCookie (getAuthUserTokensCookieName env),
               VerifyIdToken (get_field v (js ''idToken''))
                 (get_field v (js ''refreshToken''))],
              Inl e)"
proof -
  have "getAuthUser env (useToken (destructure opts tokenOpts)) (req c) (res c)
          = ([GetCookie (getAuthUserTokensCookieName env),
              VerifyIdToken (get_field v (js ''idToken''))
                (get_field v (js ''refreshToken''))],
             Inl e)"
    using getAuthUser_verifies [OF assms(2-7)] assms(1,8) by simp
  then show ?thesis by (rule handler_resolution_fails)
qed

theorem C4_verifier_failure_propagates_witness:
  \<open>withAuthUserTokenSSR (exampleEnv (tokensCookie (js ''{"idToken":"abc"}'')) failingVerifier)
     None None None exampleCtx
     = ([GetCookie ''app.AuthUserTokens'', VerifyIdToken (JStr (js ''abc'')) JUndefined],
        Inl AuthVerificationError)\<close>
proof -
  let ?payload = \<open>js ''{"idToken":"abc"}''\<close>
  let ?env = "exampleEnv (tokensCookie ?payload) failingVerifier"
  let ?v = "JObj [(js ''idToken'', JStr (js ''abc''))]"
  have mode: "useToken (destructure None None)" by (simp add: default_useToken)
  have cookie: "getCookie ?env (getAuthUserTokensCookieName ?env)
                  (req exampleCtx, res exampleCtx) (cookies (getConfig ?env)) = Some ?payload"
    by (simp add: example_env_simps tokensCookie_def)
  have nonempty: "?payload \<noteq> []" by (simp add: js_def)
  have shape: "?v \<noteq> JNull" "?v \<noteq> JUndefined" by simp_all
  have idToken: "truthy (get_field ?v (js ''idToken''))"
    by (simp add: get_field_def js_def)
  have fails: "verifyIdToken ?env (get_field ?v (js ''idToken''))
                 (get_field ?v (js ''refreshToken'')) = Inl AuthVerificationError"
    by (simp add: example_env_simps failingVerifier_def)
  from C4_verifier_failure_propagates
         [OF mode cookie nonempty JSON_parse_idToken_only shape idToken fails]
  show ?thesis by (simp add: example_env_simps get_field_def js_def)
qed

subsection \<open>C5: a mandated redirect without a destination\<close>

text \<open>
  C5: when a redirect is mandated (the user has no id and \<open>whenUnauthed\<close> is
  REDIRECT_TO_LOGIN, or the user has an id and \<open>whenAuthed\<close> is REDIRECT_TO_APP) and
  neither the destination URL of the call nor the global default is configured, the
  handler fails with the explicit Error of that case. The outcome is an exception, so it
  is neither a redirect nor a props result; no destination is made up, and the wrapped
  provider is not invoked (the calls are those of the resolution).
  "Has an id" is the test of the source, \<open>AuthUser.id\<close> being truthy; "not configured"
  is its test of the destination, \<open>null\<close>, \<open>undefined\<close> or the empty string.
\<close>

theorem C5_missing_destination_fails_fast:
  assumes "getAuthUser env (useToken (destructure opts tokenOpts)) (req c) (res c)
             = (calls, Inr user)"
    and "pol = destructure opts tokenOpts"
  shows "(\<not> truthyString (id' user) \<and> whenUnauthed pol = REDIRECT_TO_LOGIN \<and>
          \<not> truthyString (authPageURL pol) \<and>
          \<not> truthyString (config_authPageURL (getConfig env)) \<longrightarrow>
            withAuthUserTokenSSR env opts tokenOpts f c = (calls, Inl (Error unauthedMessage))) \<and>
         (truthyString (id' user) \<and> whenAuthed pol = REDIRECT_TO_APP \<and>
          \<not> truthyString (appPageURL pol) \<and>
          \<not> truthyString (config_appPageURL (getConfig env)) \<longrightarrow>
            withAuthUserTokenSSR env opts tokenOpts f c = (calls, Inl (Error authedMessage)))"
proof (intro conjI impI)
  assume a: "\<not> truthyString (id' user) \<and> whenUnauthed pol = REDIRECT_TO_LOGIN \<and>
             \<not> truthyString (authPageURL pol) \<and>
             \<not> truthyString (config_authPageURL (getConfig env))"
  then have "redirectDecision env pol user = Inl (Error unauthedMessage)"
    by (auto simp: redirectDecision_unfold orElse_def redirectTo_def truthyString_def
             split: option.splits)
  then show "withAuthUserTokenSSR env opts tokenOpts f c = (calls, Inl (Error unauthedMessage))"
    using handler_decision_fails [OF assms(1)] assms(2) by simp
next
  assume a: "truthyString (id' user) \<and> whenAuthed pol = REDIRECT_TO_APP \<and>
             \<not> truthyString (appPageURL pol) \<and>
             \<not> truthyString (config_appPageURL (getConfig env))"
  then have "redirectDecision env pol user = Inl (Error authedMessage)"
    by (auto simp: redirectDecision_unfold orElse_def redirectTo_def truthyString_def
             split: option.splits)
  then show "withAuthUserTokenSSR env opts tokenOpts f c = (calls, Inl (Error authedMessage))"
    using handler_decision_fails [OF assms(1)] assms(2) by simp
qed

theorem C5_missing_destination_fails_fast_witness:
  "withAuthUserTokenSSR (exampleEnv noCookies acceptingVerifier) (Some loginPolicyNoURL) None
     (Some titleProvider) exampleCtx
     = ([GetCookie ''app.AuthUserTokens''], Inl (Error unauthedMessage))"
proof -
  let ?env = "exampleEnv noCookies acceptingVerifier"
  have pol: "destructure (Some loginPolicyNoURL) None
               = \<lparr>whenAuthed = RENDER, whenUnauthed = REDIRECT_TO_LOGIN, appPageURL = None,
                  authPageURL = None, useToken = True\<rparr>"
    by (simp add: destructure_def orDefault_def loginPolicyNoURL_def)
  have user: "getAuthUser ?env (useToken (destructure (Some loginPolicyNoURL) None))
                (req exampleCtx) (res exampleCtx)
                = ([GetCookie ''app.AuthUserTokens''], Inr anonymousAuthUser)"
    by (simp add: pol example_anonymous)
  from C5_missing_destination_fails_fast [OF user refl, of "Some titleProvider"]
  show ?thesis
    by (simp add: pol anonymousAuthUser_def example_env_simps exampleConfig_def)
qed

subsection \<open>C6: the redirects are never permanent\<close>

text \<open>
  C6: every redirect the handler returns has \<open>permanent\<close> false. For the anonymous
  identity with \<open>whenUnauthed\<close> REDIRECT_TO_LOGIN and \<open>authPageURL\<close> "/login" the decision
  is \<open>{destination: "/login", permanent: false}\<close>, and the handler returns it. The
  unauthenticated check is evaluated before the authenticated check: on every request
  the condition of line 90 is the first one evaluated, the condition of line 103 is
  evaluated only after it, and not at all when the first check applies.
\<close>

theorem C6_redirect_not_permanent:
  "(\<forall>calls r. withAuthUserTokenSSR env opts tokenOpts f c = (calls, Inr (Redirect r)) \<longrightarrow>
      permanent r = False) \<and>
   (\<forall>pol. whenUnauthed pol = REDIRECT_TO_LOGIN \<and> authPageURL pol = Some ''/login'' \<longrightarrow>
      redirectDecision env pol anonymousAuthUser
        = Inr (Some \<lparr>destination = ''/login'', permanent = False\<rparr>)) \<and>
   (\<forall>calls. getAuthUser env (useToken (destructure opts tokenOpts)) (req c) (res c)
               = (calls, Inr anonymousAuthUser) \<and>
             whenUnauthed (destructure opts tokenOpts) = REDIRECT_TO_LOGIN \<and>
             authPageURL (destructure opts tokenOpts) = Some ''/login'' \<longrightarrow>
      withAuthUserTokenSSR env opts tokenOpts f c
        = (calls, Inr (Redirect \<lparr>destination = ''/login'', permanent = False\<rparr>))) \<and>
   (\<forall>pol user.
      redirectDecision env pol user = snd (redirectChecks env pol user) \<and>
      (\<exists>later. fst (redirectChecks env pol user) = UnauthedCheck # later) \<and>
      (\<forall>before after.
         fst (redirectChecks env pol user) = before @ AuthedCheck # after \<longrightarrow>
         UnauthedCheck \<in> set before) \<and>
      (\<not> truthyString (id' user) \<and> whenUnauthed pol = REDIRECT_TO_LOGIN \<longrightarrow>
         redirectChecks env pol user
           = ([UnauthedCheck],
              redirectTo (orElse (authPageURL pol) (config_authPageURL (getConfig env)))
                unauthedMessage)) \<and>
      (\<not> (\<not> truthyString (id' user) \<and> whenUnauthed pol = REDIRECT_TO_LOGIN) \<longrightarrow>
         fst (redirectChecks env pol user) = [UnauthedCheck, AuthedCheck]))"
proof (intro conjI allI impI)
  fix calls r
  assume res: "withAuthUserTokenSSR env opts tokenOpts f c = (calls, Inr (Redirect r))"
  obtain calls' outcome where
    g: "getAuthUser env (useToken (destructure opts tokenOpts)) (req c) (res c)
          = (calls', outcome)"
    by (cases "getAuthUser env (useToken (destructure opts tokenOpts)) (req c) (res c)")
  from res g have "\<exists>user. redirectDecision env (destructure opts tokenOpts) user = Inr (Some r)"
    by (auto simp: withAuthUserTokenSSR_def Let_def split: sum.splits option.splits)
  then show "permanent r = False"
    by (auto dest: redirectDecision_permanent)
next
  fix pol :: policy
  assume "whenUnauthed pol = REDIRECT_TO_LOGIN \<and> authPageURL pol = Some ''/login''"
  then show "redirectDecision env pol anonymousAuthUser
               = Inr (Some \<lparr>destination = ''/login'', permanent = False\<rparr>)"
    by (simp add: redirectDecision_unfold anonymousAuthUser_def orElse_def redirectTo_def)
next
  fix calls
  assume a: "getAuthUser env (useToken (destructure opts tokenOpts)) (req c) (res c)
               = (calls, Inr anonymousAuthUser) \<and>
             whenUnauthed (destructure opts tokenOpts) = REDIRECT_TO_LOGIN \<and>
             authPageURL (destructure opts tokenOpts) = Some ''/login''"
  then have "redirectDecision env (destructure opts tokenOpts) anonymousAuthUser
               = Inr (Some \<lparr>destination = ''/login'', permanent = False\<rparr>)"
    by (simp add: redirectDecision_unfold anonymousAuthUser_def orElse_def redirectTo_def)
  with a show "withAuthUserTokenSSR env opts tokenOpts f c
                 = (calls, Inr (Redirect \<lparr>destination = ''/login'', permanent = False\<rparr>))"
    by (simp add: handler_redirects)
next
  fix pol :: policy and user :: AuthUser
  show "redirectDecision env pol user = snd (redirectChecks env pol user)"
    by (simp add: redirectDecision_def)
next
  fix pol :: policy and user :: AuthUser
  show "\<exists>later. fst (redirectChecks env pol user) = UnauthedCheck # later"
    by (simp add: redirectChecks_def)
next
  fix pol :: policy and user :: AuthUser and before after
  assume split: "fst (redirectChecks env pol user) = before @ AuthedCheck # after"
  have "fst (redirectChecks env pol user) = [UnauthedCheck] \<or>
        fst (redirectChecks env pol user) = [UnauthedCheck, AuthedCheck]"
    by (simp add: redirectChecks_def)
  then show "UnauthedCheck \<in> set before"
  proof
    assume "fst (redirectChecks env pol user) = [UnauthedCheck]"
    with split have "[UnauthedCheck] = before @ AuthedCheck # after" by simp
    then show ?thesis by (cases before) auto
  next
    assume "fst (redirectChecks env pol user) = [UnauthedCheck, AuthedCheck]"
    with split have "[UnauthedCheck, AuthedCheck] = before @ AuthedCheck # after" by simp
    then show ?thesis by (cases before) auto
  qed
next
  fix pol :: policy and user :: AuthUser
  assume "\<not> truthyString (id' user) \<and> whenUnauthed pol = REDIRECT_TO_LOGIN"
  then show "redirectChecks env pol user
               = ([UnauthedCheck],
                  redirectTo (orElse (authPageURL pol) (config_authPageURL (getConfig env)))
                    unauthedMessage)"
    by (simp add: redirectChecks_def)
next
  fix pol :: policy and user :: AuthUser
  assume "\<not> (\<not> truthyString (id' user) \<and> whenUnauthed pol = REDIRECT_TO_LOGIN)"
  then show "fst (redirectChecks env pol user) = [UnauthedCheck, AuthedCheck]"
    by (auto simp: redirectChecks_def)
qed

theorem C6_redirect_not_permanent_witness:
  "withAuthUserTokenSSR (exampleEnv noCookies acceptingVerifier) (Some loginPolicy) None
     (Some titleProvider) exampleCtx
     = ([GetCookie ''app.AuthUserTokens''],
        Inr (Redirect \<lparr>destination = ''/login'', permanent = False\<rparr>)) \<and>
   permanent \<lparr>destination = ''/login'', permanent = False\<rparr> = False \<and>
   redirectChecks (exampleEnv noCookies acceptingVerifier)
     \<lparr>whenAuthed = REDIRECT_TO_APP, whenUnauthed = REDIRECT_TO_LOGIN, appPageURL = None,
      authPageURL = Some ''/login'', useToken = True\<rparr> anonymousAuthUser
     = ([UnauthedCheck], Inr (Some \<lparr>destination = ''/login'', permanent = False\<rparr>)) \<and>
   fst (redirectChecks (exampleEnv noCookies acceptingVerifier)
          \<lparr>whenAuthed = REDIRECT_TO_APP, whenUnauthed = REDIRECT_TO_LOGIN,
           appPageURL = Some ''/app'', authPageURL = Some ''/login'', useToken = True\<rparr>
          exampleUser)
     = [UnauthedCheck, AuthedCheck]"
proof -
  let ?env = "exampleEnv noCookies acceptingVerifier"
  let ?r = "\<lparr>destination = ''/login'', permanent = False\<rparr>"
  let ?pol = "\<lparr>whenAuthed = RENDER, whenUnauthed = REDIRECT_TO_LOGIN, appPageURL = None,
              authPageURL = Some ''/login'', useToken = True\<rparr>"
  let ?both = "\<lparr>whenAuthed = REDIRECT_TO_APP, whenUnauthed = REDIRECT_TO_LOGIN,
               appPageURL = None, authPageURL = Some ''/login'', useToken = True\<rparr>"
  let ?app = "\<lparr>whenAuthed = REDIRECT_TO_APP, whenUnauthed = REDIRECT_TO_LOGIN,
              appPageURL = Some ''/app'', authPageURL = Some ''/login'', useToken = True\<rparr>"
  have pol: "destructure (Some loginPolicy) None = ?pol"
    by (simp add: destructure_def orDefault_def loginPolicy_def)
  have user: "getAuthUser ?env (useToken (destructure (Some loginPolicy) None))
                (req exampleCtx) (res exampleCtx)
                = ([GetCookie ''app.AuthUserTokens''], Inr anonymousAuthUser)"
    by (simp add: pol example_anonymous)
  note C6 = C6_redirect_not_permanent
              [of ?env "Some loginPolicy" None "Some titleProvider" exampleCtx]
  from C6 user have handler:
    "withAuthUserTokenSSR ?env (Some loginPolicy) None (Some titleProvider) exampleCtx
       = ([GetCookie ''app.AuthUserTokens''], Inr (Redirect ?r))"
    by (simp add: pol)
  from C6 handler have flag: "permanent ?r = False"
    by blast
  have anonymous: "\<not> truthyString (id' anonymousAuthUser) \<and>
                   whenUnauthed ?both = REDIRECT_TO_LOGIN"
    by (simp add: anonymousAuthUser_def)
  from C6 have "\<not> truthyString (id' anonymousAuthUser) \<and>
                whenUnauthed ?both = REDIRECT_TO_LOGIN \<longrightarrow>
                redirectChecks ?env ?both anonymousAuthUser
                  = ([UnauthedCheck],
                     redirectTo (orElse (authPageURL ?both)
                                   (config_authPageURL (getConfig ?env))) unauthedMessage)"
    by blast
  with anonymous have first:
    "redirectChecks ?env ?both anonymousAuthUser = ([UnauthedCheck], Inr (Some ?r))"
    by (simp add: orElse_def redirectTo_def)
  have authed: "\<not> (\<not> truthyString (id' exampleUser) \<and>
                    whenUnauthed ?app = REDIRECT_TO_LOGIN)"
    by (simp add: exampleUser_def)
  from C6 have "\<not> (\<not> truthyString (id' exampleUser) \<and>
                    whenUnauthed ?app = REDIRECT_TO_LOGIN) \<longrightarrow>
                fst (redirectChecks ?env ?app exampleUser) = [UnauthedCheck, AuthedCheck]"
    by blast
  with authed have second:
    "fst (redirectChecks ?env ?app exampleUser) = [UnauthedCheck, AuthedCheck]"
    by blast
  from handler flag first second show ?thesis by simp
qed

subsection \<open>C7: a request without the session cookie\<close>

text \<open>
  C7: for every request lacking the session cookie (the token cookie in token mode, the
  user cookie in snapshot mode), resolution returns the anonymous Identity, and the
  identity provider's verify/refresh operation is not invoked, neither during resolution
  nor anywhere else in the handler: the only call of the resolution is the cookie read.
\<close>

theorem C7_no_cookie_anonymous:
  assumes "getCookie env
             (if useTok then getAuthUserTokensCookieName env else getAuthUserCookieName env)
             (rq, rs) (cookies (getConfig env)) = None"
  shows "getAuthUser env useTok rq rs
           = ([GetCookie (if useTok then getAuthUserTokensCookieName env
                          else getAuthUserCookieName env)],
              Inr anonymousAuthUser) \<and>
         filter isVerifyIdToken (fst (getAuthUser env useTok rq rs)) = [] \<and>
         (\<forall>opts tokenOpts f c.
            useToken (destructure opts tokenOpts) = useTok \<and> req c = rq \<and> res c = rs \<longrightarrow>
            filter isVerifyIdToken (fst (withAuthUserTokenSSR env opts tokenOpts f c)) = [])"
proof -
  have resolved: "getAuthUser env useTok rq rs
                    = ([GetCookie (if useTok then getAuthUserTokensCookieName env
                                   else getAuthUserCookieName env)],
                       Inr anonymousAuthUser)"
  proof (cases useTok)
    case True
    then show ?thesis
      using assms getAuthUser_no_cookie [of env rq rs] by simp
  next
    case False
    then show ?thesis
      using assms by (simp add: getAuthUser_snapshot createAuthUser_def)
  qed
  then have quiet: "filter isVerifyIdToken (fst (getAuthUser env useTok rq rs)) = []"
    by simp
  then have "filter isVerifyIdToken (fst (withAuthUserTokenSSR env opts tokenOpts f c)) = []"
    if "useToken (destructure opts tokenOpts) = useTok \<and> req c = rq \<and> res c = rs"
    for opts tokenOpts f and c :: "('a, 'b) ctx"
    using that by (simp add: handler_verifier_calls)
  with resolved quiet show ?thesis by blast
qed

theorem C7_no_cookie_anonymous_witness:
  "getAuthUser (exampleEnv noCookies failingVerifier) True () ()
     = ([GetCookie ''app.AuthUserTokens''], Inr anonymousAuthUser) \<and>
   getAuthUser (exampleEnv noCookies failingVerifier) False () ()
     = ([GetCookie ''app.AuthUser''], Inr anonymousAuthUser) \<and>
   filter isVerifyIdToken
     (fst (withAuthUserTokenSSR (exampleEnv noCookies failingVerifier) None None
             (Some titleProvider) exampleCtx)) = [] \<and>
   filter isVerifyIdToken
     (fst (withAuthUserTokenSSR (exampleEnv noCookies failingVerifier) None (Some snapshotMode)
             (Some titleProvider) exampleCtx)) = []"
proof -
  let ?env = "exampleEnv noCookies failingVerifier"
  have cookie: "getCookie ?env
                  (if useTok then getAuthUserTokensCookieName ?env else getAuthUserCookieName ?env)
                  ((), ()) (cookies (getConfig ?env)) = None" for useTok
    by (simp add: example_env_simps noCookies_def)
  have mode: "useToken (destructure None (Some snapshotMode)) = False"
    by (simp add: destructure_def orDefault_def snapshotMode_def)
  have rr: "req exampleCtx = ()" "res exampleCtx = ()" by simp_all
  from C7_no_cookie_anonymous [OF cookie [of True]]
  have 1: "getAuthUser ?env True () () = ([GetCookie ''app.AuthUserTokens''], Inr anonymousAuthUser)"
    and 3: "filter isVerifyIdToken
              (fst (withAuthUserTokenSSR ?env None None (Some titleProvider) exampleCtx)) = []"
    using default_useToken rr by (simp_all add: example_env_simps)
  from C7_no_cookie_anonymous [OF cookie [of False]]
  have 2: "getAuthUser ?env False () () = ([GetCookie ''app.AuthUser''], Inr anonymousAuthUser)"
    and 4: "filter isVerifyIdToken
              (fst (withAuthUserTokenSSR ?env None (Some snapshotMode) (Some titleProvider)
                      exampleCtx)) = []"
    using mode rr by (simp_all add: example_env_simps)
  from 1 2 3 4 show ?thesis by simp
qed

subsection \<open>C8: the wrapped provider is invoked once, with the user in the context\<close>

text \<open>
  C8: for every resolved identity and policy under which no redirect is decided (for
  instance a user with an id and \<open>whenAuthed\<close> RENDER), a handler given a wrapped
  provider invokes it exactly once, after the resolution, and the context it passes is
  the request context with the resolved user stored in it.
\<close>

theorem C8_provider_invoked_once:
  assumes "getAuthUser env (useToken (destructure opts tokenOpts)) (req c) (res c)
             = (calls, Inr user)"
    and "redirectDecision env (destructure opts tokenOpts) user = Inr None"
  shows "fst (withAuthUserTokenSSR env opts tokenOpts (Some f) c)
           = calls @ [GetServerSideProps (c\<lparr>ctx_AuthUser := Some user\<rparr>)] \<and>
         filter isGetServerSideProps (fst (withAuthUserTokenSSR env opts tokenOpts (Some f) c))
           = [GetServerSideProps (c\<lparr>ctx_AuthUser := Some user\<rparr>)] \<and>
         ctx_AuthUser (c\<lparr>ctx_AuthUser := Some user\<rparr>) = Some user \<and>
         snd (withAuthUserTokenSSR env opts tokenOpts (Some f) c)
           = (case f (c\<lparr>ctx_AuthUser := Some user\<rparr>) of
                Inl e \<Rightarrow> Inl e
              | Inr composedProps \<Rightarrow>
                  Inr (Props (composeProps (serialize env user) composedProps))) \<and>
         (\<forall>pol u. truthyString (id' u) \<and> whenAuthed pol = RENDER \<longrightarrow>
                  redirectDecision env pol u = Inr None)"
proof -
  have "filter isGetServerSideProps calls = []"
    using getAuthUser_no_provider_call
            [of env "useToken (destructure opts tokenOpts)" "req c" "res c"] assms(1)
    by simp
  moreover have "redirectDecision env pol u = Inr None"
    if "truthyString (id' u) \<and> whenAuthed pol = RENDER" for pol :: policy and u :: AuthUser
    using that by (simp add: redirectDecision_unfold)
  ultimately show ?thesis
    by (simp add: handler_renders_composed [OF assms])
qed

theorem C8_provider_invoked_once_witness:
  \<open>fst (withAuthUserTokenSSR
          (exampleEnv (tokensCookie (js ''{"idToken":"abc"}'')) acceptingVerifier)
          None None (Some titleProvider) exampleCtx)
     = [GetCookie ''app.AuthUserTokens'', VerifyIdToken (JStr (js ''abc'')) JUndefined,
        GetServerSideProps \<lparr>req = (), res = (), ctx_AuthUser = Some exampleUser\<rparr>] \<and>
   filter isGetServerSideProps
     (fst (withAuthUserTokenSSR
             (exampleEnv (tokensCookie (js ''{"idToken":"abc"}'')) acceptingVerifier)
             None None (Some titleProvider) exampleCtx))
     = [GetServerSideProps \<lparr>req = (), res = (), ctx_AuthUser = Some exampleUser\<rparr>]\<close>
proof -
  let ?env = \<open>exampleEnv (tokensCookie (js ''{"idToken":"abc"}'')) acceptingVerifier\<close>
  have user: "getAuthUser ?env (useToken (destructure None None)) (req exampleCtx)
                (res exampleCtx)
                = ([GetCookie ''app.AuthUserTokens'', VerifyIdToken (JStr (js ''abc'')) JUndefined],
                   Inr exampleUser)"
    by (simp add: default_useToken example_verified acceptingVerifier_def)
  have decision: "redirectDecision ?env (destructure None None) exampleUser = Inr None"
    by (simp add: redirectDecision_unfold destructure_defaults)
  from C8_provider_invoked_once [OF user decision, of titleProvider]
  show ?thesis by (simp add: exampleCtx_def)
qed

subsection \<open>C9: snapshot mode\<close>

text \<open>
  C9: in snapshot mode (\<open>useToken\<close> false), for every request, resolution reads the
  user cookie (the cookie named by \<open>getAuthUserCookieName\<close>, not the token cookie) and
  hands its value to \<open>createAuthUser\<close>, which deserializes it directly into an Identity;
  the Identity Verifier is not invoked, so no network call is made, neither in the
  resolution nor in the rest of the handler; and the \<open>idTokenValue\<close> of every identity
  so resolved is \<open>null\<close>.
\<close>

theorem C9_snapshot_mode:
  "getAuthUser env False rq rs
     = ([GetCookie (getAuthUserCookieName env)],
        createAuthUser (deserializeAuthUser env)
          (Some (getCookie env (getAuthUserCookieName env) (rq, rs) (cookies (getConfig env))))) \<and>
   filter isVerifyIdToken (fst (getAuthUser env False rq rs)) = [] \<and>
   (\<forall>user. snd (getAuthUser env False rq rs) = Inr user \<longrightarrow> idTokenValue user = None) \<and>
   (\<forall>opts tokenOpts f c. \<not> useToken (destructure opts tokenOpts) \<longrightarrow>
      filter isVerifyIdToken
        (fst (withAuthUserTokenSSR env opts tokenOpts f (c :: ('q, 's) ctx))) = [])"
proof -
  have "idTokenValue user = None" if "snd (getAuthUser env False rq rs) = Inr user" for user
    using that
    by (auto simp: getAuthUser_snapshot createAuthUser_def anonymousAuthUser_def
             split: option.splits sum.splits)
  moreover have "filter isVerifyIdToken
                   (fst (withAuthUserTokenSSR env opts tokenOpts f c)) = []"
    if "\<not> useToken (destructure opts tokenOpts)" for opts tokenOpts f and c :: "('q, 's) ctx"
    using that by (simp add: handler_verifier_calls getAuthUser_snapshot)
  ultimately show ?thesis
    by (simp add: getAuthUser_snapshot)
qed

theorem C9_snapshot_mode_witness:
  "getAuthUser (exampleEnv (userCookie (js ''user-1'')) failingVerifier) False () ()
     = ([GetCookie ''app.AuthUser''], Inr (exampleUser\<lparr>idTokenValue := None\<rparr>)) \<and>
   idTokenValue (exampleUser\<lparr>idTokenValue := None\<rparr>) = None \<and>
   filter isVerifyIdToken
     (fst (withAuthUserTokenSSR (exampleEnv (userCookie (js ''user-1'')) failingVerifier)
             None (Some snapshotMode) (Some titleProvider) exampleCtx)) = []"
proof -
  let ?env = "exampleEnv (userCookie (js ''user-1'')) failingVerifier"
  have mode: "\<not> useToken (destructure None (Some snapshotMode))"
    by (simp add: destructure_def orDefault_def snapshotMode_def)
  note C9 = C9_snapshot_mode [of ?env "()" "()"]
  from C9 have 1: "getAuthUser ?env False () ()
                     = ([GetCookie ''app.AuthUser''], Inr (exampleUser\<lparr>idTokenValue := None\<rparr>))"
    by (simp add: example_env_simps userCookie_def createAuthUser_def)
  from C9 1 have 2: "idTokenValue (exampleUser\<lparr>idTokenValue := None\<rparr>) = None"
    by simp
  from C9 mode have 3: "filter isVerifyIdToken
                          (fst (withAuthUserTokenSSR ?env None (Some snapshotMode)
                                  (Some titleProvider) exampleCtx)) = []"
    by blast
  from 1 2 3 show ?thesis by simp
qed

subsection \<open>C10: the handler with the default options\<close>

text \<open>
  C10: called with no options the factory uses \<open>whenAuthed\<close> = RENDER, \<open>whenUnauthed\<close> =
  RENDER, \<open>useToken\<close> = true, \<open>appPageURL\<close> = null and \<open>authPageURL\<close> = null. For every
  resolved identity the redirect checks of this handler then decide nothing: they return
  no redirect and raise no Error about a missing URL, and the handler goes on to a props
  result: the serialized user alone without a wrapped provider, merged with the
  provider's props when the provider returns them. The handler never returns a redirect.
\<close>

theorem C10_default_handler_renders:
  "destructure None None
     = \<lparr>whenAuthed = RENDER, whenUnauthed = RENDER, appPageURL = None, authPageURL = None,
        useToken = True\<rparr> \<and>
   (\<forall>user. redirectDecision env (destructure None None) user = Inr None) \<and>
   (\<forall>r. snd (withAuthUserTokenSSR env None None f c) \<noteq> Inr (Redirect r)) \<and>
   (\<forall>calls user.
      getAuthUser env True (req c) (res c) = (calls, Inr user) \<longrightarrow>
      (f = None \<longrightarrow>
         withAuthUserTokenSSR env None None f c
           = (calls, Inr (Props (composeProps (serialize env user) Map.empty)))) \<and>
      (\<forall>g composedProps.
         f = Some g \<and> g (c\<lparr>ctx_AuthUser := Some user\<rparr>) = Inr composedProps \<longrightarrow>
         withAuthUserTokenSSR env None None f c
           = (calls @ [GetServerSideProps (c\<lparr>ctx_AuthUser := Some user\<rparr>)],
              Inr (Props (composeProps (serialize env user) composedProps)))))"
proof -
  have decision: "redirectDecision env (destructure None None) user = Inr None" for user
    by (simp add: redirectDecision_unfold destructure_defaults)
  have never: "snd (withAuthUserTokenSSR env None None f c) \<noteq> Inr (Redirect r)" for r
    by (auto simp: withAuthUserTokenSSR_def Let_def decision
             split: prod.splits sum.splits option.splits)
  have props:
    "(f = None \<longrightarrow>
        withAuthUserTokenSSR env None None f c
          = (calls, Inr (Props (composeProps (serialize env user) Map.empty)))) \<and>
     (\<forall>g composedProps.
        f = Some g \<and> g (c\<lparr>ctx_AuthUser := Some user\<rparr>) = Inr composedProps \<longrightarrow>
        withAuthUserTokenSSR env None None f c
          = (calls @ [GetServerSideProps (c\<lparr>ctx_AuthUser := Some user\<rparr>)],
             Inr (Props (composeProps (serialize env user) composedProps))))"
    if "getAuthUser env True (req c) (res c) = (calls, Inr user)" for calls user
  proof -
    from that have g: "getAuthUser env (useToken (destructure None None)) (req c) (res c)
                         = (calls, Inr user)"
      by (simp add: default_useToken)
    show ?thesis
      by (auto simp: handler_renders_alone [OF g decision]
            handler_renders_composed [OF g decision])
  qed
  from decision never props show ?thesis
    by (simp add: destructure_defaults)
qed

theorem C10_default_handler_renders_witness:
  \<open>withAuthUserTokenSSR
     (exampleEnv (tokensCookie (js ''{"idToken":"abc"}'')) acceptingVerifier)
     None None None exampleCtx
     = ([GetCookie ''app.AuthUserTokens'', VerifyIdToken (JStr (js ''abc'')) JUndefined],
        Inr (Props [''AuthUserSerialized'' \<mapsto> JStr (js ''user-1'')])) \<and>
   withAuthUserTokenSSR (exampleEnv noCookies acceptingVerifier) None None
     (Some titleProvider) exampleCtx
     = ([GetCookie ''app.AuthUserTokens'',
         GetServerSideProps \<lparr>req = (), res = (), ctx_AuthUser = Some anonymousAuthUser\<rparr>],
        Inr (Props [''AuthUserSerialized'' \<mapsto> JStr (js ''anonymous''),
                    ''title'' \<mapsto> JStr (js ''Home'')]))\<close>
proof -
  let ?env1 = \<open>exampleEnv (tokensCookie (js ''{"idToken":"abc"}'')) acceptingVerifier\<close>
  let ?env2 = "exampleEnv noCookies acceptingVerifier"
  have user1: "getAuthUser ?env1 True (req exampleCtx) (res exampleCtx)
                 = ([GetCookie ''app.AuthUserTokens'',
                     VerifyIdToken (JStr (js ''abc'')) JUndefined], Inr exampleUser)"
    by (simp add: example_verified acceptingVerifier_def)
  have user2: "getAuthUser ?env2 True (req exampleCtx) (res exampleCtx)
                 = ([GetCookie ''app.AuthUserTokens''], Inr anonymousAuthUser)"
    by (simp add: example_anonymous)
  from C10_default_handler_renders [of ?env1 None exampleCtx] user1
  have 1: "withAuthUserTokenSSR ?env1 None None None exampleCtx
             = ([GetCookie ''app.AuthUserTokens'', VerifyIdToken (JStr (js ''abc'')) JUndefined],
                Inr (Props [''AuthUserSerialized'' \<mapsto> JStr (js ''user-1'')]))"
    by (simp add: composeProps_def example_env_simps exampleSerialize_def exampleUser_def)
  from C10_default_handler_renders [of ?env2 "Some titleProvider" exampleCtx] user2
  have 2: "withAuthUserTokenSSR ?env2 None None (Some titleProvider) exampleCtx
             = ([GetCookie ''app.AuthUserTokens'',
                 GetServerSideProps \<lparr>req = (), res = (), ctx_AuthUser = Some anonymousAuthUser\<rparr>],
                Inr (Props [''AuthUserSerialized'' \<mapsto> JStr (js ''anonymous''),
                            ''title'' \<mapsto> JStr (js ''Home'')]))"
    by (simp add: composeProps_def example_env_simps exampleSerialize_def anonymousAuthUser_def
          titleProvider_def exampleCtx_def)
  from 1 2 show ?thesis by simp
qed

end
